theory Spec2Isabelle
  imports Complex_Main "HOL-Library.Multiset"
begin

section \<open>Beam search decoding for Token-and-Duration Transducers\<close>

text \<open>
  A shallow embedding of \<^verbatim>\<open>nemo/collections/asr/parts/submodules/tdt_beam_decoding.py\<close>
  (class \<^verbatim>\<open>BeamTDTInfer\<close>). Scores, which the source holds as floating-point numbers, are
  read as real numbers; Python's unbounded integers are \<open>int\<close>, tensor indices are \<open>nat\<close>.
  The decoder network, the joint network and the n-gram language model are external
  collaborators: what they return is a parameter of the functions below.
\<close>

subsection \<open>Errors\<close>

datatype error =
  ValueError | NotImplementedError | ImportError | IndexError | ZeroDivisionError | TypeError
  | RuntimeError | AttributeError | IOError

definition bindE :: "error + 'a \<Rightarrow> ('a \<Rightarrow> error + 'b) \<Rightarrow> error + 'b" where
  "bindE m f = (case m of Inl e \<Rightarrow> Inl e | Inr x \<Rightarrow> f x)"

text \<open>
  Indexing a list or a one-dimensional tensor with an integer: a negative index counts from
  the end, and an index outside the range raises \<^verbatim>\<open>IndexError\<close>.
\<close>

definition py_index :: "'a list \<Rightarrow> int \<Rightarrow> error + 'a" where
  "py_index xs i =
     (if 0 \<le> i \<and> i < int (length xs) then Inr (xs ! nat i)
      else if i < 0 \<and> - int (length xs) \<le> i then Inr (xs ! nat (int (length xs) + i))
      else Inl IndexError)"

text \<open>\<^verbatim>\<open>a % b\<close> and \<^verbatim>\<open>a // b\<close> on integers: floor division, an error when \<open>b\<close> is zero.\<close>

definition py_mod :: "int \<Rightarrow> int \<Rightarrow> error + int" where
  "py_mod a b = (if b = 0 then Inl ZeroDivisionError else Inr (a mod b))"

definition py_floordiv :: "int \<Rightarrow> int \<Rightarrow> error + int" where
  "py_floordiv a b = (if b = 0 then Inl ZeroDivisionError else Inr (a div b))"

text \<open>The slice \<^verbatim>\<open>xs[:n]\<close>: a negative \<open>n\<close> drops that many elements from the end.\<close>

definition py_take :: "int \<Rightarrow> 'a list \<Rightarrow> 'a list" where
  "py_take n xs = (if 0 \<le> n then take (nat n) xs else take (length xs - nat (- n)) xs)"

text \<open>A loop that collects results and stops at the first error.\<close>

fun mapE :: "('a \<Rightarrow> error + 'b) \<Rightarrow> 'a list \<Rightarrow> error + 'b list" where
  "mapE f [] = Inr []"
| "mapE f (x # xs) = bindE (f x) (\<lambda>y. bindE (mapE f xs) (\<lambda>ys. Inr (y # ys)))"

subsection \<open>Hypothesis\<close>

text \<open>
  The fields of \<^verbatim>\<open>Hypothesis\<close> that the decoder reads or writes. The decoder state
  (\<open>'s\<close>), the cached decoder outputs (\<open>'d\<close>) and the language-model state (\<open>'l\<close>) are opaque.
  The field \<^verbatim>\<open>length\<close> of the source is \<open>length_enc\<close> here.
\<close>

record ('s, 'd, 'l) Hypothesis =
  score :: real
  y_sequence :: "int list"
  dec_state :: 's
  dec_out :: "'d list"
  timestep :: "int list"
  length_enc :: int
  last_frame :: int
  ngram_lm_state :: "'l option"

text \<open>
  \<^verbatim>\<open>sorted(xs, key=k, reverse=True)\<close>: descending by key, elements with equal keys keep
  their input order. \<open>sort_key\<close> is the stable insertion sort of the library, ascending, so it
  is run on the negated key.
\<close>

definition sorted_desc :: "('a \<Rightarrow> real) \<Rightarrow> 'a list \<Rightarrow> 'a list" where
  "sorted_desc key xs = sort_key (\<lambda>x. - key x) xs"

subsection \<open>Deduplication\<close>

text \<open>\<^verbatim>\<open>torch.logaddexp\<close>.\<close>

definition logaddexp :: "real \<Rightarrow> real \<Rightarrow> real" where
  "logaddexp a b = ln (exp a + exp b)"

text \<open>What two duplicates share: the token sequence and the frame.\<close>

definition hyp_key :: "('s, 'd, 'l) Hypothesis \<Rightarrow> int list \<times> int" where
  "hyp_key h = (y_sequence h, last_frame h)"

text \<open>The test of the inner loop of \<^verbatim>\<open>remove_duplicate_hypotheses\<close>.\<close>

definition same_hyp :: "('s, 'd, 'l) Hypothesis \<Rightarrow> ('s, 'd, 'l) Hypothesis \<Rightarrow> bool" where
  "same_hyp kept_hyp hyp \<longleftrightarrow>
     y_sequence kept_hyp = y_sequence hyp \<and> last_frame kept_hyp = last_frame hyp"

text \<open>
  One round of the outer loop: the inner loop walks \<open>kept_hyps\<close>, adds the score of \<open>hyp\<close>
  to the first entry with the same token sequence and frame and stops there; when it finds
  none, \<open>hyp\<close> is appended.
\<close>

fun absorb_hyp ::
  "('s, 'd, 'l) Hypothesis list \<Rightarrow> ('s, 'd, 'l) Hypothesis \<Rightarrow> ('s, 'd, 'l) Hypothesis list" where
  "absorb_hyp [] hyp = [hyp]"
| "absorb_hyp (kept_hyp # kept_hyps) hyp =
     (if same_hyp kept_hyp hyp
      then kept_hyp\<lparr>score := logaddexp (score kept_hyp) (score hyp)\<rparr> # kept_hyps
      else kept_hyp # absorb_hyp kept_hyps hyp)"

definition remove_duplicate_hypotheses ::
  "('s, 'd, 'l) Hypothesis list \<Rightarrow> ('s, 'd, 'l) Hypothesis list" where
  "remove_duplicate_hypotheses hypotheses = foldl absorb_hyp [] (sorted_desc score hypotheses)"

text \<open>
  The logarithm of the sum of the exponentials of the scores of a list of hypotheses: what
  repeated \<open>logaddexp\<close> accumulates. It is used to state the properties below.
\<close>

definition lse :: "('s, 'd, 'l) Hypothesis list \<Rightarrow> real" where
  "lse hs = ln (sum_list (map (\<lambda>h. exp (score h)) hs))"

subsection \<open>Construction\<close>

text \<open>
  The arguments of \<^verbatim>\<open>BeamTDTInfer.__init__\<close>. Of \<^verbatim>\<open>decoder_model\<close> only \<^verbatim>\<open>blank_idx\<close> and
  \<^verbatim>\<open>vocab_size\<close> are read. \<open>kenlm\<close> stands for the optional import at the top of the
  module: \<open>None\<close> when \<^verbatim>\<open>KENLM_AVAILABLE\<close> is false, otherwise the constructor \<^verbatim>\<open>kenlm.Model\<close>,
  which returns the model of a path or raises on a file that it cannot read.
\<close>

record 'lm init_args =
  arg_blank_idx :: int
  arg_vocab_size :: int
  arg_durations :: "int list"
  arg_beam_size :: int
  arg_search_type :: string
  arg_score_norm :: bool
  arg_return_best_hypothesis :: bool
  arg_maes_num_steps :: int
  arg_maes_prefix_alpha :: int
  arg_maes_expansion_gamma :: real
  arg_maes_expansion_beta :: int
  arg_softmax_temperature :: real
  arg_preserve_alignments :: bool
  arg_ngram_lm_model :: "string option"
  arg_ngram_lm_alpha :: real
  kenlm :: "(string \<Rightarrow> error + 'lm) option"

datatype search_algorithm = default_beam_search_alg | modified_adaptive_expansion_search_alg

text \<open>
  The attributes of the constructed object. The mAES attributes are set only under
  \<^verbatim>\<open>search_type == 'maes'\<close> and \<^verbatim>\<open>ngram_lm_alpha\<close> only with a language model: they are
  \<open>None\<close> where the source leaves the attribute unset.
\<close>

record 'lm BeamTDTInfer =
  durations :: "int list"
  token_offset :: int
  search_type :: string
  blank :: int
  vocab_size :: int
  return_best_hypothesis :: bool
  beam_size :: int
  score_norm :: bool
  max_candidates :: int
  softmax_temperature :: real
  preserve_alignments :: bool
  search_algorithm :: search_algorithm
  maes_num_steps :: "int option"
  maes_prefix_alpha :: "int option"
  maes_expansion_beta :: "int option"
  maes_expansion_gamma :: "real option"
  zero_duration_idx :: "int option"
  min_non_zero_duration_idx :: int
  ngram_lm :: "'lm option"
  ngram_lm_alpha :: "real option"

text \<open>\<^verbatim>\<open>xs.index(v)\<close>: the first position of \<open>v\<close>, \<open>None\<close> where the source catches \<^verbatim>\<open>ValueError\<close>.\<close>

fun list_index :: "'a list \<Rightarrow> 'a \<Rightarrow> nat option" where
  "list_index [] v = None"
| "list_index (x # xs) v = (if x = v then Some 0 else map_option Suc (list_index xs v))"

text \<open>
  \<^verbatim>\<open>np.argmin(np.ma.masked_where(np.array(durations) == 0, durations))\<close>. The zero entries
  are masked; \<^verbatim>\<open>argmin\<close> fills a masked entry with the largest value of the element type, so
  an entry that is not masked wins over every masked one, and the first position of the
  least such entry is returned. When every entry is masked the filled values are all equal
  and the position is 0. On an empty array \<^verbatim>\<open>argmin\<close> raises \<^verbatim>\<open>ValueError\<close>.
\<close>

definition argmin_masked_zero :: "int list \<Rightarrow> error + int" where
  "argmin_masked_zero ds =
     (if ds = [] then Inl ValueError
      else (case filter (\<lambda>d. d \<noteq> 0) ds of
              [] \<Rightarrow> Inr 0
            | u # us \<Rightarrow> (case list_index ds (fold min us u) of
                           None \<Rightarrow> Inr 0
                         | Some i \<Rightarrow> Inr (int i))))"

text \<open>The chain of tests on \<^verbatim>\<open>search_type\<close>.\<close>

definition select_search_algorithm :: "string \<Rightarrow> error + search_algorithm" where
  "select_search_algorithm st =
     (if st = ''default'' then Inr default_beam_search_alg
      else if st = ''tsd'' then Inl NotImplementedError
      else if st = ''alsd'' then Inl NotImplementedError
      else if st = ''nsc'' then Inl NotImplementedError
      else if st = ''maes'' then Inr modified_adaptive_expansion_search_alg
      else Inl NotImplementedError)"

text \<open>Truth value of \<^verbatim>\<open>ngram_lm_model\<close>: \<^verbatim>\<open>None\<close> and the empty string are false.\<close>

definition lm_model_given :: "string option \<Rightarrow> bool" where
  "lm_model_given m \<longleftrightarrow> (case m of None \<Rightarrow> False | Some path \<Rightarrow> path \<noteq> [])"

text \<open>
  The last part of \<^verbatim>\<open>__init__\<close>: with a model path that counts as true, the search type must
  be \<open>maes\<close> and the backend must be there, and \<^verbatim>\<open>kenlm.Model\<close> loads the model or raises;
  otherwise \<^verbatim>\<open>self.ngram_lm\<close> is \<open>None\<close>.
\<close>

definition load_ngram_lm :: "'lm init_args \<Rightarrow> error + 'lm option" where
  "load_ngram_lm a =
     (case arg_ngram_lm_model a of
        None \<Rightarrow> Inr None
      | Some path \<Rightarrow>
          if \<not> lm_model_given (Some path) then Inr None
          else if arg_search_type a \<noteq> ''maes'' then Inl ValueError
          else (case kenlm a of
                  None \<Rightarrow> Inl ImportError
                | Some load \<Rightarrow> bindE (load path) (\<lambda>lm. Inr (Some lm))))"

text \<open>\<^verbatim>\<open>BeamTDTInfer.__init__\<close>, the tests in the order of the source.\<close>

definition init :: "'lm init_args \<Rightarrow> error + 'lm BeamTDTInfer" where
  "init a =
     (if arg_preserve_alignments a then Inl ValueError
      else if arg_beam_size a < 1 then Inl ValueError
      else if arg_preserve_alignments a then Inl NotImplementedError
      else bindE (select_search_algorithm (arg_search_type a)) (\<lambda>alg.
        let is_maes = (arg_search_type a = ''maes'') in
        if is_maes \<and> arg_maes_prefix_alpha a < 0 then Inl ValueError
        else if is_maes \<and> arg_vocab_size a < arg_beam_size a + arg_maes_expansion_beta a
          then Inl ValueError
        else if is_maes \<and> arg_maes_num_steps a < 2 then Inl ValueError
        else bindE (argmin_masked_zero (arg_durations a)) (\<lambda>min_idx.
          bindE (load_ngram_lm a) (\<lambda>lm. Inr \<lparr>
            durations = arg_durations a,
            token_offset = 0,
            search_type = arg_search_type a,
            blank = arg_blank_idx a,
            vocab_size = arg_vocab_size a,
            return_best_hypothesis = arg_return_best_hypothesis a,
            beam_size = arg_beam_size a,
            score_norm = arg_score_norm a,
            max_candidates =
              (if is_maes then arg_beam_size a + arg_maes_expansion_beta a else arg_beam_size a),
            softmax_temperature = arg_softmax_temperature a,
            preserve_alignments = arg_preserve_alignments a,
            search_algorithm = alg,
            maes_num_steps = (if is_maes then Some (arg_maes_num_steps a) else None),
            maes_prefix_alpha = (if is_maes then Some (arg_maes_prefix_alpha a) else None),
            maes_expansion_beta = (if is_maes then Some (arg_maes_expansion_beta a) else None),
            maes_expansion_gamma = (if is_maes then Some (arg_maes_expansion_gamma a) else None),
            zero_duration_idx = map_option int (list_index (arg_durations a) 0),
            min_non_zero_duration_idx = min_idx,
            ngram_lm = lm,
            ngram_lm_alpha =
              (if lm_model_given (arg_ngram_lm_model a) then Some (arg_ngram_lm_alpha a)
               else None) \<rparr>))))"

subsection \<open>Default beam search\<close>

text \<open>
  What one pass through the decoder, the joint network, the two \<^verbatim>\<open>log_softmax\<close> calls and
  the three \<^verbatim>\<open>topk\<close> calls yields for the popped hypothesis at a frame: the new decoder state,
  \<^verbatim>\<open>logp[self.blank]\<close>, the duration log-probabilities, and the values and positions that
  \<^verbatim>\<open>topk\<close> returned. A position returned by \<^verbatim>\<open>topk\<close> is never negative: it is a \<open>nat\<close>.
\<close>

record 's step_scores =
  decoder_state :: 's
  logp_blank :: real
  durations_logp :: "real list"
  logp_topk_idxs :: "nat list"
  durations_logp_topk_idxs :: "nat list"
  total_logp_topks :: "real list"
  total_logp_topk_idxs :: "nat list"

text \<open>The body of the loop over the best (token, duration) pairs, for one pair.\<close>

definition expand_non_blank ::
  "'lm BeamTDTInfer \<Rightarrow> int \<Rightarrow> int \<Rightarrow> int \<Rightarrow> 's step_scores \<Rightarrow> ('s, 'd, 'l) Hypothesis \<Rightarrow>
   real \<times> nat \<Rightarrow> error + (int \<times> ('s, 'd, 'l) Hypothesis)" where
  "expand_non_blank self encoded_lengths beam_k time_idx sc max_hyp p =
     (case p of (total_logp_topk, total_logp_topk_idx) \<Rightarrow>
        bindE (py_mod (int total_logp_topk_idx) beam_k) (\<lambda>r.
        bindE (py_index (logp_topk_idxs sc) r) (\<lambda>token_idx.
        bindE (py_floordiv (int total_logp_topk_idx) beam_k) (\<lambda>q.
        bindE (py_index (durations_logp_topk_idxs sc) q) (\<lambda>duration_idx.
        bindE (py_index (durations self) (int duration_idx)) (\<lambda>duration.
          Inr (duration,
            \<lparr> score = score max_hyp + total_logp_topk,
              y_sequence = y_sequence max_hyp @ [int token_idx],
              dec_state = decoder_state sc,
              dec_out = [],
              timestep = timestep max_hyp @ [time_idx + duration],
              length_enc = encoded_lengths,
              last_frame = last_frame max_hyp + duration,
              ngram_lm_state = None \<rparr>)))))))"

text \<open>
  The loop itself: a child of duration zero goes back to the hypotheses of the current
  frame, every other child to the hypotheses of later frames.
\<close>

fun non_blank_loop ::
  "'lm BeamTDTInfer \<Rightarrow> int \<Rightarrow> int \<Rightarrow> int \<Rightarrow> 's step_scores \<Rightarrow> ('s, 'd, 'l) Hypothesis \<Rightarrow>
   (real \<times> nat) list \<Rightarrow> ('s, 'd, 'l) Hypothesis list \<times> ('s, 'd, 'l) Hypothesis list \<Rightarrow>
   error + (('s, 'd, 'l) Hypothesis list \<times> ('s, 'd, 'l) Hypothesis list)" where
  "non_blank_loop self encoded_lengths beam_k time_idx sc max_hyp [] (hyps, kept_hyps) =
     Inr (hyps, kept_hyps)"
| "non_blank_loop self encoded_lengths beam_k time_idx sc max_hyp (p # ps) (hyps, kept_hyps) =
     bindE (expand_non_blank self encoded_lengths beam_k time_idx sc max_hyp p) (\<lambda>(duration, new_hyp).
       if duration = 0
       then non_blank_loop self encoded_lengths beam_k time_idx sc max_hyp ps
              (hyps @ [new_hyp], kept_hyps)
       else non_blank_loop self encoded_lengths beam_k time_idx sc max_hyp ps
              (hyps, kept_hyps @ [new_hyp]))"

text \<open>
  The body of the loop over the best durations, pairing each with the blank token:
  \<open>None\<close> is the \<^verbatim>\<open>continue\<close> of the source.
\<close>

definition expand_blank ::
  "'lm BeamTDTInfer \<Rightarrow> int \<Rightarrow> 's step_scores \<Rightarrow> ('s, 'd, 'l) Hypothesis \<Rightarrow> nat \<Rightarrow>
   error + ('s, 'd, 'l) Hypothesis option" where
  "expand_blank self encoded_lengths sc max_hyp duration_idx0 =
     (if Some (int duration_idx0) = zero_duration_idx self
         \<and> length (durations_logp_topk_idxs sc) \<noteq> 1
      then Inr None
      else
        let duration_idx =
              (if Some (int duration_idx0) = zero_duration_idx self
               then min_non_zero_duration_idx self else int duration_idx0)
        in bindE (py_index (durations self) duration_idx) (\<lambda>duration.
           bindE (py_index (durations_logp sc) duration_idx) (\<lambda>duration_logp.
             Inr (Some
               \<lparr> score = score max_hyp + logp_blank sc + duration_logp,
                 y_sequence = y_sequence max_hyp,
                 dec_state = dec_state max_hyp,
                 dec_out = [],
                 timestep = timestep max_hyp,
                 length_enc = encoded_lengths,
                 last_frame = last_frame max_hyp + duration,
                 ngram_lm_state = None \<rparr>))))"

fun blank_loop ::
  "'lm BeamTDTInfer \<Rightarrow> int \<Rightarrow> 's step_scores \<Rightarrow> ('s, 'd, 'l) Hypothesis \<Rightarrow> nat list \<Rightarrow>
   ('s, 'd, 'l) Hypothesis list \<Rightarrow> error + ('s, 'd, 'l) Hypothesis list" where
  "blank_loop self encoded_lengths sc max_hyp [] kept_hyps = Inr kept_hyps"
| "blank_loop self encoded_lengths sc max_hyp (duration_idx # idxs) kept_hyps =
     bindE (expand_blank self encoded_lengths sc max_hyp duration_idx) (\<lambda>r.
       case r of
         None \<Rightarrow> blank_loop self encoded_lengths sc max_hyp idxs kept_hyps
       | Some new_hyp \<Rightarrow> blank_loop self encoded_lengths sc max_hyp idxs (kept_hyps @ [new_hyp]))"

text \<open>\<^verbatim>\<open>max(hyps, key=lambda x: x.score)\<close>: the first hypothesis of the largest score.\<close>

definition max_by_score :: "('s, 'd, 'l) Hypothesis \<Rightarrow> ('s, 'd, 'l) Hypothesis list \<Rightarrow> ('s, 'd, 'l) Hypothesis" where
  "max_by_score h hs = foldl (\<lambda>m x. if score m < score x then x else m) h hs"

text \<open>
  What follows the deduplication in the body of the \<^verbatim>\<open>while\<close> loop. \<open>Stop_frame\<close> is the
  \<^verbatim>\<open>break\<close>; \<open>Next_pop\<close> goes back to the loop test with the hypotheses of the current
  frame and those of later frames.
\<close>

datatype ('s, 'd, 'l) frame_control =
    Stop_frame "('s, 'd, 'l) Hypothesis list"
  | Next_pop "('s, 'd, 'l) Hypothesis list" "('s, 'd, 'l) Hypothesis list"

definition early_stop ::
  "int \<Rightarrow> ('s, 'd, 'l) Hypothesis list \<Rightarrow> ('s, 'd, 'l) Hypothesis list \<Rightarrow> ('s, 'd, 'l) frame_control" where
  "early_stop beam hyps kept_hyps =
     (case hyps of
        h # hs \<Rightarrow>
          let hyps_max = score (max_by_score h hs);
              kept_most_prob = sort_key score (filter (\<lambda>hyp. hyps_max < score hyp) kept_hyps)
          in if beam \<le> int (length kept_most_prob) then Stop_frame kept_most_prob
             else Next_pop hyps kept_hyps
      | [] \<Rightarrow> Next_pop [] (py_take beam (sorted_desc score kept_hyps)))"

text \<open>
  The first part of one round of the \<^verbatim>\<open>while\<close> loop on a non-empty list \<open>h # hs\<close> of
  current-frame hypotheses: the best hypothesis is popped and expanded, and the hypotheses of
  later frames are deduplicated. \<open>scorer time_idx max_hyp\<close> is what the networks return for
  the popped hypothesis. The result is the pair of \<open>hyps\<close> and \<open>kept_hyps\<close>.
\<close>

definition expand_popped ::
  "'lm BeamTDTInfer \<Rightarrow> (int \<Rightarrow> ('s, 'd, 'l) Hypothesis \<Rightarrow> 's step_scores) \<Rightarrow> int \<Rightarrow> int \<Rightarrow>
   ('s, 'd, 'l) Hypothesis \<Rightarrow> ('s, 'd, 'l) Hypothesis list \<Rightarrow> ('s, 'd, 'l) Hypothesis list \<Rightarrow>
   error + (('s, 'd, 'l) Hypothesis list \<times> ('s, 'd, 'l) Hypothesis list)" where
  "expand_popped self scorer encoded_lengths time_idx h hs kept_hyps =
     (let beam = min (beam_size self) (vocab_size self);
          beam_k = min beam (vocab_size self - 1);
          max_hyp = max_by_score h hs;
          hyps = remove1 max_hyp (h # hs);
          sc = scorer time_idx max_hyp
      in bindE (non_blank_loop self encoded_lengths beam_k time_idx sc max_hyp
                  (zip (total_logp_topks sc) (total_logp_topk_idxs sc)) (hyps, kept_hyps))
           (\<lambda>(hyps1, kept1).
         bindE (blank_loop self encoded_lengths sc max_hyp (durations_logp_topk_idxs sc) kept1)
           (\<lambda>kept2. Inr (hyps1, remove_duplicate_hypotheses kept2))))"

text \<open>One round of the \<^verbatim>\<open>while\<close> loop: the expansion, then the test for the early stop.\<close>

definition pop_step ::
  "'lm BeamTDTInfer \<Rightarrow> (int \<Rightarrow> ('s, 'd, 'l) Hypothesis \<Rightarrow> 's step_scores) \<Rightarrow> int \<Rightarrow> int \<Rightarrow>
   ('s, 'd, 'l) Hypothesis \<Rightarrow> ('s, 'd, 'l) Hypothesis list \<Rightarrow> ('s, 'd, 'l) Hypothesis list \<Rightarrow>
   error + ('s, 'd, 'l) frame_control" where
  "pop_step self scorer encoded_lengths time_idx h hs kept_hyps =
     bindE (expand_popped self scorer encoded_lengths time_idx h hs kept_hyps)
       (\<lambda>(hyps, kept). Inr (early_stop (min (beam_size self) (vocab_size self)) hyps kept))"

text \<open>
  The \<^verbatim>\<open>while len(hyps) > 0\<close> loop of one frame. A zero-duration child re-enters \<open>hyps\<close>, so
  the loop need not end: \<open>None\<close> is the run that never leaves it.
\<close>

partial_function (option) frame_loop ::
  "'lm BeamTDTInfer \<Rightarrow> (int \<Rightarrow> ('s, 'd, 'l) Hypothesis \<Rightarrow> 's step_scores) \<Rightarrow> int \<Rightarrow> int \<Rightarrow>
   ('s, 'd, 'l) Hypothesis list \<Rightarrow> ('s, 'd, 'l) Hypothesis list \<Rightarrow>
   (error + ('s, 'd, 'l) Hypothesis list) option" where
  "frame_loop self scorer encoded_lengths time_idx hyps kept_hyps =
     (case hyps of
        [] \<Rightarrow> Some (Inr kept_hyps)
      | h # hs \<Rightarrow>
          (case pop_step self scorer encoded_lengths time_idx h hs kept_hyps of
             Inl e \<Rightarrow> Some (Inl e)
           | Inr (Stop_frame kept') \<Rightarrow> Some (Inr kept')
           | Inr (Next_pop hyps' kept') \<Rightarrow>
               frame_loop self scorer encoded_lengths time_idx hyps' kept'))"

text \<open>\<^verbatim>\<open>sort_nbest\<close>. The key \<^verbatim>\<open>x.score / len(x.y_sequence)\<close> raises on an empty sequence.\<close>

definition sort_nbest ::
  "'lm BeamTDTInfer \<Rightarrow> ('s, 'd, 'l) Hypothesis list \<Rightarrow> error + ('s, 'd, 'l) Hypothesis list" where
  "sort_nbest self hyps =
     (if score_norm self
      then (if [] \<in> set (map y_sequence hyps) then Inl ZeroDivisionError
            else Inr (sorted_desc (\<lambda>x. score x / real (length (y_sequence x))) hyps))
      else Inr (sorted_desc score hyps))"

text \<open>The loop over the frames, and \<^verbatim>\<open>default_beam_search\<close>.\<close>

fun frames_loop ::
  "'lm BeamTDTInfer \<Rightarrow> (int \<Rightarrow> ('s, 'd, 'l) Hypothesis \<Rightarrow> 's step_scores) \<Rightarrow> int \<Rightarrow> int list \<Rightarrow>
   ('s, 'd, 'l) Hypothesis list \<Rightarrow> (error + ('s, 'd, 'l) Hypothesis list) option" where
  "frames_loop self scorer encoded_lengths [] kept_hyps = Some (Inr kept_hyps)"
| "frames_loop self scorer encoded_lengths (time_idx # ts) kept_hyps =
     (case frame_loop self scorer encoded_lengths time_idx
             (filter (\<lambda>hyp. last_frame hyp = time_idx) kept_hyps)
             (filter (\<lambda>hyp. time_idx < last_frame hyp) kept_hyps) of
        None \<Rightarrow> None
      | Some (Inl e) \<Rightarrow> Some (Inl e)
      | Some (Inr kept') \<Rightarrow> frames_loop self scorer encoded_lengths ts kept')"

definition default_beam_search ::
  "'lm BeamTDTInfer \<Rightarrow> (int \<Rightarrow> ('s, 'd, 'l) Hypothesis \<Rightarrow> 's step_scores) \<Rightarrow> 's \<Rightarrow> int \<Rightarrow>
   bool \<Rightarrow> (error + ('s, 'd, 'l) Hypothesis list) option" where
  "default_beam_search self scorer initial_state encoded_lengths partial_hypotheses_given =
     (if partial_hypotheses_given then Some (Inl NotImplementedError)
      else
        let start_hyp =
              \<lparr> score = 0, y_sequence = [blank self], dec_state = initial_state, dec_out = [],
                timestep = [-1], length_enc = 0, last_frame = 0, ngram_lm_state = None \<rparr>
        in (case frames_loop self scorer encoded_lengths
                   (map int [0 ..< nat encoded_lengths]) [start_hyp] of
              None \<Rightarrow> None
            | Some (Inl e) \<Rightarrow> Some (Inl e)
            | Some (Inr kept_hyps) \<Rightarrow> Some (sort_nbest self kept_hyps)))"

subsection \<open>Language model scoring\<close>

text \<open>
  The word handed to the language model: \<^verbatim>\<open>chr(label + self.token_offset)\<close>, the character
  of that code point, or \<^verbatim>\<open>str(label)\<close>, the decimal numeral. Both are kept as the number
  they are built from.
\<close>

datatype lm_word = Chr int | Str int

definition lm_label :: "int \<Rightarrow> int \<Rightarrow> lm_word" where
  "lm_label offset label = (if offset \<noteq> 0 then Chr (label + offset) else Str label)"

text \<open>
  \<^verbatim>\<open>compute_ngram_score\<close>. \<open>base_score lm state word\<close> is \<^verbatim>\<open>self.ngram_lm.BaseScore\<close>: the
  score it returns and the state it writes.
\<close>

definition compute_ngram_score ::
  "'lm BeamTDTInfer \<Rightarrow> ('lm \<Rightarrow> 'l \<Rightarrow> lm_word \<Rightarrow> real \<times> 'l) \<Rightarrow> 'lm \<Rightarrow> 'l \<Rightarrow> int \<Rightarrow> real \<times> 'l" where
  "compute_ngram_score self base_score lm current_lm_state label =
     (case base_score lm current_lm_state (lm_label (token_offset self) label) of
        (lm_score, next_state) \<Rightarrow> (lm_score * (1 / log 10 (exp 1)), next_state))"

subsection \<open>Modified adaptive expansion search\<close>

text \<open>
  The row of one hypothesis in the batched tensors of an mAES step: the positions of the best
  tokens and durations, the flattened sums, and the result of \<^verbatim>\<open>topk\<close> on the sums.
\<close>

record maes_row =
  beam_idx_topks :: "nat list"
  beam_duration_idx_topks :: "nat list"
  beam_total_logp :: "real list"
  beam_total_logp_topks :: "real list"
  beam_total_logp_topk_idxs :: "nat list"

text \<open>The row of one hypothesis in the tensors of the last step.\<close>

record maes_final_row =
  final_logp_blank :: real
  final_duration_logp :: "real list"
  final_max_duration_idx :: nat

text \<open>
  Pruning by value: \<^verbatim>\<open>beam_total_logp_topks.max\<close> raises on an empty row; the mask keeps the
  positions whose sum is within \<open>maes_expansion_gamma\<close> of the best.
\<close>

definition beam_kexpansions_idxs :: "real \<Rightarrow> maes_row \<Rightarrow> error + nat list" where
  "beam_kexpansions_idxs gamma row =
     (case beam_total_logp_topks row of
        [] \<Rightarrow> Inl RuntimeError
      | v # vs \<Rightarrow>
          let best = fold max vs v
          in Inr (map fst (filter (\<lambda>(idx, w). best - gamma \<le> w)
                    (zip (beam_total_logp_topk_idxs row) (beam_total_logp_topks row)))))"

definition hyp_expansion :: "'lm BeamTDTInfer \<Rightarrow> maes_row \<Rightarrow> nat \<Rightarrow> error + (int \<times> nat \<times> real)" where
  "hyp_expansion self row idx =
     bindE (py_mod (int idx) (max_candidates self)) (\<lambda>r.
     bindE (py_index (beam_idx_topks row) r) (\<lambda>k.
     bindE (py_floordiv (int idx) (max_candidates self)) (\<lambda>q.
     bindE (py_index (beam_duration_idx_topks row) q) (\<lambda>duration_idx.
     bindE (py_index (beam_total_logp row) (int idx)) (\<lambda>total_logp.
       Inr (int k, duration_idx, total_logp))))))"

text \<open>The list an expansion is appended to.\<close>

datatype emission = To_list_b | To_list_exp | To_list_nb

text \<open>The body of the loop over the expansions of one hypothesis, for one expansion.\<close>

definition maes_expand ::
  "'lm BeamTDTInfer \<Rightarrow> ('lm \<Rightarrow> 'l \<Rightarrow> lm_word \<Rightarrow> real \<times> 'l) \<Rightarrow> int \<Rightarrow> ('s, 'd, 'l) Hypothesis \<Rightarrow>
   int \<times> nat \<times> real \<Rightarrow> error + (emission \<times> ('s, 'd, 'l) Hypothesis)" where
  "maes_expand self base_score time_idx hyp e =
     (case e of (k, duration_idx0, total_logp) \<Rightarrow>
        let duration_idx =
              (if k = blank self \<and> zero_duration_idx self \<noteq> None
                  \<and> Some (int duration_idx0) = zero_duration_idx self
               then min_non_zero_duration_idx self else int duration_idx0)
        in bindE (py_index (durations self) duration_idx) (\<lambda>duration.
          let new_hyp =
                \<lparr> score = score hyp + total_logp,
                  y_sequence = y_sequence hyp,
                  dec_state = dec_state hyp,
                  dec_out = dec_out hyp,
                  timestep = timestep hyp,
                  length_enc = time_idx,
                  last_frame = last_frame hyp + duration,
                  ngram_lm_state = (if ngram_lm self \<noteq> None then ngram_lm_state hyp else None) \<rparr>
          in if k = blank self then Inr (To_list_b, new_hyp)
             else
               let new_hyp1 = new_hyp\<lparr>y_sequence := y_sequence new_hyp @ [k],
                                      timestep := timestep new_hyp @ [time_idx]\<rparr>;
                   target = (if duration = 0 then To_list_exp else To_list_nb)
               in (case ngram_lm self of
                     None \<Rightarrow> Inr (target, new_hyp1)
                   | Some lm \<Rightarrow>
                       (case (ngram_lm_state hyp, ngram_lm_alpha self) of
                          (Some st, Some alpha) \<Rightarrow>
                            (case compute_ngram_score self base_score lm st k of
                               (lm_score, next_state) \<Rightarrow>
                                 Inr (target,
                                   new_hyp1\<lparr>ngram_lm_state := Some next_state,
                                            score := score new_hyp1 + alpha * lm_score\<rparr>))
                        | (None, _) \<Rightarrow> Inl TypeError
                        | (_, None) \<Rightarrow> Inl AttributeError))))"

text \<open>The three lists: blank emissions, non-blank emissions that advance, zero-duration ones.\<close>

record ('s, 'd, 'l) maes_lists =
  list_b :: "('s, 'd, 'l) Hypothesis list"
  list_nb :: "('s, 'd, 'l) Hypothesis list"
  list_exp :: "('s, 'd, 'l) Hypothesis list"

definition append_emission ::
  "('s, 'd, 'l) maes_lists \<Rightarrow> emission \<times> ('s, 'd, 'l) Hypothesis \<Rightarrow> ('s, 'd, 'l) maes_lists" where
  "append_emission ls p =
     (case p of
        (To_list_b, new_hyp) \<Rightarrow> ls\<lparr>list_b := list_b ls @ [new_hyp]\<rparr>
      | (To_list_exp, new_hyp) \<Rightarrow> ls\<lparr>list_exp := list_exp ls @ [new_hyp]\<rparr>
      | (To_list_nb, new_hyp) \<Rightarrow> ls\<lparr>list_nb := list_nb ls @ [new_hyp]\<rparr>)"

text \<open>The expansions of one hypothesis, from its row and the positions the pruning kept.\<close>

definition expand_hypothesis ::
  "'lm BeamTDTInfer \<Rightarrow> ('lm \<Rightarrow> 'l \<Rightarrow> lm_word \<Rightarrow> real \<times> 'l) \<Rightarrow> int \<Rightarrow>
   ('s, 'd, 'l) Hypothesis \<times> maes_row \<times> nat list \<Rightarrow>
   error + (emission \<times> ('s, 'd, 'l) Hypothesis) list" where
  "expand_hypothesis self base_score time_idx p =
     (case p of (hyp, row, idxs) \<Rightarrow>
        bindE (mapE (hyp_expansion self row) idxs) (\<lambda>hyp_expansions.
          mapE (maes_expand self base_score time_idx hyp) hyp_expansions))"

text \<open>
  The networks as mAES calls them: the joint network with the two \<^verbatim>\<open>log_softmax\<close> and the
  \<^verbatim>\<open>topk\<close> calls on the last decoder output of a hypothesis, the same for the last step,
  and the decoder on a hypothesis (its output and its new state).
\<close>

record ('s, 'd, 'l) maes_scorer =
  joint_row :: "int \<Rightarrow> 'd \<Rightarrow> maes_row"
  joint_final_row :: "int \<Rightarrow> 'd \<Rightarrow> maes_final_row"
  score_hyp :: "('s, 'd, 'l) Hypothesis \<Rightarrow> 'd \<times> 's"

definition last_dec_out :: "('s, 'd, 'l) Hypothesis \<Rightarrow> error + 'd" where
  "last_dec_out h = py_index (dec_out h) (- 1)"

text \<open>Every hypothesis that ends in a token gets its decoder output and state renewed.\<close>

definition update_states ::
  "('s, 'd, 'l) maes_scorer \<Rightarrow> ('s, 'd, 'l) Hypothesis list \<Rightarrow> ('s, 'd, 'l) Hypothesis list" where
  "update_states sc hyps_to_update =
     map (\<lambda>hyp. case score_hyp sc hyp of
                  (out, st) \<Rightarrow> hyp\<lparr>dec_out := dec_out hyp @ [out], dec_state := st\<rparr>)
       hyps_to_update"

text \<open>
  The last step: a zero-duration expansion takes the blank log-probability and its most
  probable duration, or the least non-zero one when that duration is the zero one.
\<close>

definition add_final_blank ::
  "'lm BeamTDTInfer \<Rightarrow> ('s, 'd, 'l) maes_scorer \<Rightarrow> int \<Rightarrow> ('s, 'd, 'l) Hypothesis \<Rightarrow>
   error + ('s, 'd, 'l) Hypothesis" where
  "add_final_blank self sc time_idx hyp =
     bindE (last_dec_out hyp) (\<lambda>d.
       let row = joint_final_row sc time_idx d;
           duration_idx =
             (if Some (int (final_max_duration_idx row)) = zero_duration_idx self
              then min_non_zero_duration_idx self else int (final_max_duration_idx row))
       in bindE (py_index (final_duration_logp row) duration_idx) (\<lambda>duration_logp.
          bindE (py_index (durations self) duration_idx) (\<lambda>duration.
            Inr (hyp\<lparr>score := score hyp + (final_logp_blank row + duration_logp),
                     last_frame := last_frame hyp + duration\<rparr>))))"

text \<open>
  The loop \<^verbatim>\<open>for n in range(self.maes_num_steps)\<close> at one frame, on the steps still to run.
  The first result is the \<^verbatim>\<open>break\<close> on a step without zero-duration expansions.
\<close>

fun maes_steps ::
  "'lm BeamTDTInfer \<Rightarrow> ('lm \<Rightarrow> 'l \<Rightarrow> lm_word \<Rightarrow> real \<times> 'l) \<Rightarrow> ('s, 'd, 'l) maes_scorer \<Rightarrow>
   int \<Rightarrow> real \<Rightarrow> int \<Rightarrow> int \<Rightarrow> int list \<Rightarrow> ('s, 'd, 'l) Hypothesis list \<Rightarrow>
   ('s, 'd, 'l) Hypothesis list \<Rightarrow> ('s, 'd, 'l) Hypothesis list \<Rightarrow> ('s, 'd, 'l) Hypothesis list \<Rightarrow>
   error + ('s, 'd, 'l) Hypothesis list" where
  "maes_steps self base_score sc num_steps gamma beam time_idx [] hyps lb lnb kept_hyps =
     Inr kept_hyps"
| "maes_steps self base_score sc num_steps gamma beam time_idx (n # ns) hyps lb lnb kept_hyps =
     bindE (mapE (\<lambda>h. bindE (last_dec_out h) (\<lambda>d. Inr (joint_row sc time_idx d))) hyps) (\<lambda>rows.
     bindE (mapE (beam_kexpansions_idxs gamma) rows) (\<lambda>idxss.
     bindE (mapE (expand_hypothesis self base_score time_idx) (zip hyps (zip rows idxss)))
       (\<lambda>emissions.
         let ls = foldl append_emission \<lparr>list_b = lb, list_nb = lnb, list_exp = []\<rparr>
                    (concat emissions);
             lnb' = update_states sc (list_nb ls);
             lexp = update_states sc (list_exp ls)
         in if lexp = []
            then Inr (py_take beam (sorted_desc score
                        (remove_duplicate_hypotheses (kept_hyps @ list_b ls @ lnb'))))
            else if n < num_steps - 1
            then maes_steps self base_score sc num_steps gamma beam time_idx ns
                   (remove_duplicate_hypotheses lexp) (list_b ls) lnb' kept_hyps
            else bindE (mapE (add_final_blank self sc time_idx) lexp) (\<lambda>lexp'.
                   maes_steps self base_score sc num_steps gamma beam time_idx ns
                     hyps (list_b ls) lnb'
                     (py_take beam (sorted_desc score
                        (remove_duplicate_hypotheses (kept_hyps @ list_b ls @ lexp' @ lnb'))))))))"

text \<open>The loop over the frames: a frame without hypotheses is skipped.\<close>

fun maes_frames ::
  "'lm BeamTDTInfer \<Rightarrow> ('lm \<Rightarrow> 'l \<Rightarrow> lm_word \<Rightarrow> real \<times> 'l) \<Rightarrow> ('s, 'd, 'l) maes_scorer \<Rightarrow>
   int \<Rightarrow> real \<Rightarrow> int \<Rightarrow> int list \<Rightarrow> ('s, 'd, 'l) Hypothesis list \<Rightarrow>
   error + ('s, 'd, 'l) Hypothesis list" where
  "maes_frames self base_score sc num_steps gamma beam [] kept_hyps = Inr kept_hyps"
| "maes_frames self base_score sc num_steps gamma beam (time_idx # ts) kept_hyps =
     (let hyps = filter (\<lambda>x. last_frame x = time_idx) kept_hyps;
          kept = filter (\<lambda>x. time_idx < last_frame x) kept_hyps
      in if hyps = [] then maes_frames self base_score sc num_steps gamma beam ts kept
         else bindE (maes_steps self base_score sc num_steps gamma beam time_idx
                       (map int [0 ..< nat num_steps]) hyps [] [] kept)
                (\<lambda>kept'. maes_frames self base_score sc num_steps gamma beam ts kept'))"

definition modified_adaptive_expansion_search ::
  "'lm BeamTDTInfer \<Rightarrow> ('lm \<Rightarrow> 'l \<Rightarrow> lm_word \<Rightarrow> real \<times> 'l) \<Rightarrow> ('s, 'd, 'l) maes_scorer \<Rightarrow>
   's \<Rightarrow> 'd \<Rightarrow> 'l \<Rightarrow> int \<Rightarrow> bool \<Rightarrow> error + ('s, 'd, 'l) Hypothesis list" where
  "modified_adaptive_expansion_search self base_score sc initial_state initial_dec_out
       init_lm_state encoded_lengths partial_hypotheses_given =
     (if partial_hypotheses_given then Inl NotImplementedError
      else (case (maes_num_steps self, maes_expansion_gamma self) of
              (Some num_steps, Some gamma) \<Rightarrow>
                let start_hyp_kept =
                      \<lparr> score = 0, y_sequence = [blank self], dec_state = initial_state,
                        dec_out = [initial_dec_out], timestep = [-1], length_enc = 0,
                        last_frame = 0,
                        ngram_lm_state =
                          (if ngram_lm self \<noteq> None then Some init_lm_state else None) \<rparr>
                in bindE (maes_frames self base_score sc num_steps gamma
                            (min (beam_size self) (vocab_size self))
                            (map int [0 ..< nat encoded_lengths]) [start_hyp_kept])
                     (sort_nbest self)
            | _ \<Rightarrow> Inl AttributeError))"

text \<open>The three components by which a surviving hypothesis is compared.\<close>

definition triple :: "('s, 'd, 'l) Hypothesis \<Rightarrow> int list \<times> int \<times> real" where
  "triple r = (y_sequence r, last_frame r, score r)"

subsection \<open>Examples\<close>

text \<open>
  A hypothesis with a given score, token sequence and frame, and with trivial decoder and
  language-model states: the concrete inputs of the examples below.
\<close>

definition example_hyp :: "real \<Rightarrow> int list \<Rightarrow> int \<Rightarrow> (unit, unit, unit) Hypothesis" where
  "example_hyp s ys t =
     \<lparr> score = s, y_sequence = ys, dec_state = (), dec_out = [], timestep = [],
       length_enc = 0, last_frame = t, ngram_lm_state = None \<rparr>"

text \<open>
  A decoder for a vocabulary of two tokens (the blank is 2) with the durations 0, 1 and 2 and
  a beam of 2, as \<open>init\<close> builds it for the default search, and what the networks return at
  every frame: token 0 and the duration 1 are the most probable.
\<close>

definition example_args :: "unit init_args" where
  "example_args =
     \<lparr> arg_blank_idx = 2, arg_vocab_size = 2, arg_durations = [0, 1, 2], arg_beam_size = 2,
       arg_search_type = ''default'', arg_score_norm = True, arg_return_best_hypothesis = True,
       arg_maes_num_steps = 2, arg_maes_prefix_alpha = 1, arg_maes_expansion_gamma = 23 / 10,
       arg_maes_expansion_beta = 2, arg_softmax_temperature = 1, arg_preserve_alignments = False,
       arg_ngram_lm_model = None, arg_ngram_lm_alpha = 3 / 10, kenlm = None \<rparr>"

definition example_decoder :: "unit BeamTDTInfer" where
  "example_decoder =
     \<lparr> durations = [0, 1, 2], token_offset = 0, search_type = ''default'', blank = 2,
       vocab_size = 2, return_best_hypothesis = True, beam_size = 2, score_norm = True,
       max_candidates = 2, softmax_temperature = 1, preserve_alignments = False,
       search_algorithm = default_beam_search_alg, maes_num_steps = None,
       maes_prefix_alpha = None, maes_expansion_beta = None, maes_expansion_gamma = None,
       zero_duration_idx = Some 0, min_non_zero_duration_idx = 1, ngram_lm = None,
       ngram_lm_alpha = None \<rparr>"

definition example_scores :: "unit step_scores" where
  "example_scores =
     \<lparr> decoder_state = (), logp_blank = - 3, durations_logp = [- 2, - 1, - 3],
       logp_topk_idxs = [0], durations_logp_topk_idxs = [1, 0],
       total_logp_topks = [- 2], total_logp_topk_idxs = [0] \<rparr>"

text \<open>
  The key by which \<^verbatim>\<open>sort_nbest\<close> ranks a hypothesis: the score divided by the length of the
  token sequence when \<^verbatim>\<open>score_norm\<close> is set, the score otherwise. It is used to state the
  ranking property.
\<close>

definition rank_key :: "'lm BeamTDTInfer \<Rightarrow> ('s, 'd, 'l) Hypothesis \<Rightarrow> real" where
  "rank_key self x =
     (if score_norm self then score x / real (length (y_sequence x)) else score x)"

text \<open>
  The configurations that the specification lists as rejected at construction, in its words:
  a beam size below 1; a search type other than \<open>default\<close> and \<open>maes\<close>; alignment
  preservation; under \<open>maes\<close>, fewer than 2 steps, a negative prefix alpha, or a vocabulary
  smaller than the beam size plus the expansion beta; a language model supplied with a search
  type other than \<open>maes\<close>; a language model supplied while the backend is unavailable. A
  model counts as supplied here when \<^verbatim>\<open>ngram_lm_model\<close> is a non-empty path, which is the
  test of the source.
\<close>

definition spec_rejects :: "'lm init_args \<Rightarrow> bool" where
  "spec_rejects a \<longleftrightarrow>
     arg_beam_size a < 1
   \<or> (arg_search_type a \<noteq> ''default'' \<and> arg_search_type a \<noteq> ''maes'')
   \<or> arg_preserve_alignments a
   \<or> (arg_search_type a = ''maes''
        \<and> (arg_maes_num_steps a < 2 \<or> arg_maes_prefix_alpha a < 0
            \<or> arg_vocab_size a < arg_beam_size a + arg_maes_expansion_beta a))
   \<or> (lm_model_given (arg_ngram_lm_model a) \<and> arg_search_type a \<noteq> ''maes'')
   \<or> (lm_model_given (arg_ngram_lm_model a) \<and> kenlm a = None)"

text \<open>
  The backend can read the model: with a non-empty path and the backend there,
  \<^verbatim>\<open>kenlm.Model\<close> returns a model for that path.
\<close>

definition lm_loads :: "'lm init_args \<Rightarrow> bool" where
  "lm_loads a \<longleftrightarrow>
     (case (arg_ngram_lm_model a, kenlm a) of
        (Some path, Some load) \<Rightarrow>
          (if lm_model_given (Some path)
           then (case load path of Inr lm \<Rightarrow> True | Inl e \<Rightarrow> False) else True)
      | _ \<Rightarrow> True)"

text \<open>
  A decoder for the mAES search with a language model: four tokens (the blank is 4), a beam of
  2 and an expansion beta of 2, as \<open>init\<close> builds it; a language model that scores every word
  \<open>-2\<close> (in base 10); and a hypothesis that carries a language-model state.
\<close>

definition example_maes_args :: "unit init_args" where
  "example_maes_args =
     \<lparr> arg_blank_idx = 4, arg_vocab_size = 4, arg_durations = [0, 1, 2], arg_beam_size = 2,
       arg_search_type = ''maes'', arg_score_norm = True, arg_return_best_hypothesis = True,
       arg_maes_num_steps = 2, arg_maes_prefix_alpha = 1, arg_maes_expansion_gamma = 23 / 10,
       arg_maes_expansion_beta = 2, arg_softmax_temperature = 1, arg_preserve_alignments = False,
       arg_ngram_lm_model = Some ''lm.bin'', arg_ngram_lm_alpha = 3 / 10,
       kenlm = Some (\<lambda>path. Inr ()) \<rparr>"

definition example_maes_decoder :: "unit BeamTDTInfer" where
  "example_maes_decoder =
     \<lparr> durations = [0, 1, 2], token_offset = 0, search_type = ''maes'', blank = 4,
       vocab_size = 4, return_best_hypothesis = True, beam_size = 2, score_norm = True,
       max_candidates = 4, softmax_temperature = 1, preserve_alignments = False,
       search_algorithm = modified_adaptive_expansion_search_alg, maes_num_steps = Some 2,
       maes_prefix_alpha = Some 1, maes_expansion_beta = Some 2,
       maes_expansion_gamma = Some (23 / 10), zero_duration_idx = Some 0,
       min_non_zero_duration_idx = 1, ngram_lm = Some (), ngram_lm_alpha = Some (3 / 10) \<rparr>"

definition example_base_score :: "unit \<Rightarrow> unit \<Rightarrow> lm_word \<Rightarrow> real \<times> unit" where
  "example_base_score lm st w = (- 2, ())"

definition example_lm_hyp :: "(unit, unit, unit) Hypothesis" where
  "example_lm_hyp =
     \<lparr> score = 0, y_sequence = [4], dec_state = (), dec_out = [()], timestep = [- 1],
       length_enc = 0, last_frame = 0, ngram_lm_state = Some () \<rparr>"

text \<open>
  What the joint network returns in the mAES examples. In a step: the best tokens are 0, the
  blank (4), 1 and 2, the best durations are 1 and 0 (two candidates), and the flattened sums
  hold, at position 5, the pair of the blank and the zero duration. In the last step: the
  zero duration is the most probable one.
\<close>

definition example_maes_row :: maes_row where
  "example_maes_row =
     \<lparr> beam_idx_topks = [0, 4, 1, 2], beam_duration_idx_topks = [1, 0],
       beam_total_logp = [- 2, - 3, - 6, - 7, - 4, - 5, - 8, - 9],
       beam_total_logp_topks = [- 2, - 3, - 4, - 5], beam_total_logp_topk_idxs = [0, 1, 4, 5] \<rparr>"

definition example_maes_scorer :: "(unit, unit, unit) maes_scorer" where
  "example_maes_scorer =
     \<lparr> joint_row = (\<lambda>t d. example_maes_row),
       joint_final_row = (\<lambda>t d. \<lparr> final_logp_blank = - 1, final_duration_logp = [- 1, - 2, - 3],
                                    final_max_duration_idx = 0 \<rparr>),
       score_hyp = (\<lambda>h. ((), ())) \<rparr>"

section \<open>Properties\<close>

subsection \<open>Deduplication: the merge loop\<close>

lemma same_hyp_key: "same_hyp k h \<longleftrightarrow> hyp_key k = hyp_key h"
  by (auto simp: same_hyp_def hyp_key_def)

lemma hyp_key_score_update [simp]: "hyp_key (h\<lparr>score := v\<rparr>) = hyp_key h"
  by (simp add: hyp_key_def)

lemma absorb_hyp_keys:
  "map hyp_key (absorb_hyp ks h) =
     (if hyp_key h \<in> set (map hyp_key ks) then map hyp_key ks else map hyp_key ks @ [hyp_key h])"
  by (induction ks) (auto simp: same_hyp_key)

lemma absorb_hyp_distinct:
  "distinct (map hyp_key ks) \<Longrightarrow> distinct (map hyp_key (absorb_hyp ks h))"
  by (simp add: absorb_hyp_keys)

lemma foldl_absorb_distinct:
  "distinct (map hyp_key acc) \<Longrightarrow> distinct (map hyp_key (foldl absorb_hyp acc xs))"
  by (induction xs arbitrary: acc) (simp_all add: absorb_hyp_distinct)

lemma absorb_hyp_as_map:
  "distinct (map hyp_key ks) \<Longrightarrow>
   absorb_hyp ks h =
     (if hyp_key h \<in> hyp_key ` set ks
      then map (\<lambda>k. if hyp_key k = hyp_key h then k\<lparr>score := logaddexp (score k) (score h)\<rparr> else k) ks
      else ks @ [h])"
proof (induction ks)
  case Nil
  then show ?case by simp
next
  case (Cons k ks)
  show ?case
  proof (cases "hyp_key k = hyp_key h")
    case True
    from Cons.prems have "hyp_key k \<notin> hyp_key ` set ks" by simp
    with True have "\<forall>k' \<in> set ks. hyp_key k' \<noteq> hyp_key h" by (metis image_eqI)
    then have "map (\<lambda>k. if hyp_key k = hyp_key h then k\<lparr>score := logaddexp (score k) (score h)\<rparr> else k) ks = ks"
      by (simp add: map_idI)
    with True show ?thesis by (simp add: same_hyp_key)
  next
    case False
    with Cons show ?thesis by (auto simp: same_hyp_key)
  qed
qed


lemma sum_exp_pos: "hs \<noteq> [] \<Longrightarrow> 0 < sum_list (map (\<lambda>h. exp (score h)) hs)"
proof -
  assume "hs \<noteq> []"
  then obtain a ys where hs: "hs = a # ys" by (cases hs) auto
  have "0 \<le> sum_list (map (\<lambda>h. exp (score h)) ys)"
    by (rule sum_list_nonneg) auto
  moreover have "0 < exp (score a)" by simp
  ultimately show ?thesis unfolding hs by (simp add: add_pos_nonneg)
qed

lemma logaddexp_lse: "hs \<noteq> [] \<Longrightarrow> logaddexp (lse hs) (score x) = lse (hs @ [x])"
  using sum_exp_pos[of hs] by (simp add: logaddexp_def lse_def)

lemma lse_single: "lse [x] = score x"
  by (simp add: lse_def)


lemma absorb_hyp_key_set: "hyp_key ` set (absorb_hyp ks h) = insert (hyp_key h) (hyp_key ` set ks)"
  using absorb_hyp_keys[of ks h, THEN arg_cong, of set] by (auto split: if_splits)

lemma foldl_absorb_key_set:
  "hyp_key ` set (foldl absorb_hyp acc xs) = hyp_key ` set acc \<union> hyp_key ` set xs"
  by (induction xs arbitrary: acc) (auto simp: absorb_hyp_key_set)

lemma foldl_absorb_char:
  "r \<in> set (foldl absorb_hyp [] xs) \<Longrightarrow>
   \<exists>g gs. filter (\<lambda>x. hyp_key x = hyp_key r) xs = g # gs \<and> r = g\<lparr>score := lse (g # gs)\<rparr>"
proof (induction xs arbitrary: r rule: rev_induct)
  case Nil
  then show ?case by simp
next
  case (snoc x xs)
  let ?F = "foldl absorb_hyp [] xs"
  have dist: "distinct (map hyp_key ?F)" by (rule foldl_absorb_distinct) simp
  have keys: "hyp_key ` set ?F = hyp_key ` set xs" by (simp add: foldl_absorb_key_set)
  from snoc.prems have mem: "r \<in> set (absorb_hyp ?F x)" by simp
  show ?case
  proof (cases "hyp_key x \<in> hyp_key ` set ?F")
    case False
    with mem dist have "r \<in> set ?F \<or> r = x" by (auto simp: absorb_hyp_as_map)
    then show ?thesis
    proof
      assume r: "r \<in> set ?F"
      with False have "hyp_key x \<noteq> hyp_key r" by auto
      with snoc.IH[OF r] show ?thesis by simp
    next
      assume r: "r = x"
      from False keys have "\<forall>y \<in> set xs. hyp_key y \<noteq> hyp_key x"
        by (metis image_eqI)
      then have "filter (\<lambda>y. hyp_key y = hyp_key x) xs = []"
        by (simp add: filter_empty_conv)
      with r show ?thesis by (simp add: lse_single)
    qed
  next
    case True
    with mem dist obtain k where k: "k \<in> set ?F"
      and r: "r = (if hyp_key k = hyp_key x then k\<lparr>score := logaddexp (score k) (score x)\<rparr> else k)"
      by (auto simp: absorb_hyp_as_map)
    from snoc.IH[OF k] obtain g gs where
      g: "filter (\<lambda>y. hyp_key y = hyp_key k) xs = g # gs" "k = g\<lparr>score := lse (g # gs)\<rparr>"
      by blast
    show ?thesis
    proof (cases "hyp_key k = hyp_key x")
      case False
      with r g show ?thesis by auto
    next
      case same: True
      have "logaddexp (score k) (score x) = lse ((g # gs) @ [x])"
        using logaddexp_lse[of "g # gs" x] g(2) by simp
      with r same g show ?thesis by simp
    qed
  qed
qed

subsection \<open>Deduplication: sorting and merged scores\<close>

lemma mset_sorted_desc [simp]: "mset (sorted_desc f xs) = mset xs"
  by (simp add: sorted_desc_def)

lemma set_sorted_desc [simp]: "set (sorted_desc f xs) = set xs"
  by (simp add: sorted_desc_def)

lemma filter_sorted_desc: "filter P (sorted_desc f xs) = sorted_desc f (filter P xs)"
  unfolding sorted_desc_def by (rule filter_sort)

lemma sum_list_map_mset:
  fixes F :: "'a \<Rightarrow> real"
  assumes "mset xs = mset ys"
  shows "sum_list (map F xs) = sum_list (map F ys)"
proof -
  have "sum_list (map F xs) = sum_mset (mset (map F xs))" by (simp only: sum_mset_sum_list)
  also have "\<dots> = sum_mset (image_mset F (mset xs))" by (simp only: mset_map)
  also have "\<dots> = sum_mset (image_mset F (mset ys))" by (simp only: assms)
  also have "\<dots> = sum_mset (mset (map F ys))" by (simp only: mset_map)
  also have "\<dots> = sum_list (map F ys)" by (simp only: sum_mset_sum_list)
  finally show ?thesis .
qed

lemma lse_mset: "mset xs = mset ys \<Longrightarrow> lse xs = lse ys"
  using sum_list_map_mset[of xs ys "\<lambda>h. exp (score h)"] by (simp add: lse_def)


lemma rdh_member:
  assumes "r \<in> set (remove_duplicate_hypotheses hyps)"
  shows "\<exists>g gs. sorted_desc score (filter (\<lambda>x. hyp_key x = hyp_key r) hyps) = g # gs
           \<and> r = g\<lparr>score := lse (filter (\<lambda>x. hyp_key x = hyp_key r) hyps)\<rparr>"
proof -
  let ?P = "\<lambda>x. hyp_key x = hyp_key r"
  from assms obtain g gs where
    g: "filter ?P (sorted_desc score hyps) = g # gs" and r: "r = g\<lparr>score := lse (g # gs)\<rparr>"
    unfolding remove_duplicate_hypotheses_def by (blast dest: foldl_absorb_char)
  have fs: "sorted_desc score (filter ?P hyps) = g # gs"
    using g by (simp only: filter_sorted_desc)
  have "mset (g # gs) = mset (filter ?P hyps)"
    using mset_sorted_desc[of score "filter ?P hyps"] by (simp only: fs)
  then have "lse (g # gs) = lse (filter ?P hyps)" by (rule lse_mset)
  with r fs show ?thesis by simp
qed

lemma sorted_desc_head:
  assumes "sorted_desc f xs = g # gs"
  shows "g \<in> set xs \<and> (\<forall>x \<in> set xs. f x \<le> f g)"
proof -
  have s: "set (g # gs) = set xs" using set_sorted_desc[of f xs] by (simp only: assms)
  have "sorted (map (\<lambda>x. - f x) (sorted_desc f xs))"
    unfolding sorted_desc_def by (rule sorted_sort_key)
  then have "\<forall>x \<in> set gs. - f g \<le> - f x" by (simp add: assms)
  then have "\<forall>x \<in> set (g # gs). f x \<le> f g" by simp
  with s show ?thesis by auto
qed







lemma rdh_key_set:
  "hyp_key ` set (remove_duplicate_hypotheses hyps) = hyp_key ` set hyps"
  by (simp add: remove_duplicate_hypotheses_def foldl_absorb_key_set)

lemma rdh_member_fields:
  assumes "r \<in> set (remove_duplicate_hypotheses hyps)"
  shows "\<exists>g \<in> set hyps. y_sequence r = y_sequence g \<and> last_frame r = last_frame g
           \<and> score r = lse (filter (\<lambda>x. hyp_key x = hyp_key g) hyps)"
proof -
  define k where "k = hyp_key r"
  from rdh_member[OF assms, folded k_def] obtain g gs where
    s: "sorted_desc score (filter (\<lambda>x. hyp_key x = k) hyps) = g # gs" and
    r: "r = g\<lparr>score := lse (filter (\<lambda>x. hyp_key x = k) hyps)\<rparr>" by blast
  from sorted_desc_head[OF s] have gin: "g \<in> set hyps" and gk: "hyp_key g = k" by auto
  from r have "y_sequence r = y_sequence g" "last_frame r = last_frame g"
    "score r = lse (filter (\<lambda>x. hyp_key x = k) hyps)" by simp_all
  with gin gk show ?thesis by blast
qed

lemma rdh_triples:
  "triple ` set (remove_duplicate_hypotheses hyps) =
   (\<lambda>h. (y_sequence h, last_frame h, lse (filter (\<lambda>x. hyp_key x = hyp_key h) hyps))) ` set hyps"
  (is "?L = ?R")
proof (rule set_eqI, rule iffI)
  fix t assume "t \<in> ?L"
  then obtain r where rin: "r \<in> set (remove_duplicate_hypotheses hyps)" and t: "t = triple r"
    by auto
  from rdh_member_fields[OF rin] t show "t \<in> ?R"
    by (auto simp: triple_def)
next
  fix t assume "t \<in> ?R"
  then obtain h where hin: "h \<in> set hyps"
    and t: "t = (y_sequence h, last_frame h, lse (filter (\<lambda>x. hyp_key x = hyp_key h) hyps))"
    by auto
  from hin have "hyp_key h \<in> hyp_key ` set (remove_duplicate_hypotheses hyps)"
    by (simp add: rdh_key_set)
  then obtain r where rin: "r \<in> set (remove_duplicate_hypotheses hyps)"
    and rk: "hyp_key r = hyp_key h" by auto
  from rdh_member_fields[OF rin] obtain g where gin: "g \<in> set hyps" and
    g: "y_sequence r = y_sequence g" "last_frame r = last_frame g"
       "score r = lse (filter (\<lambda>x. hyp_key x = hyp_key g) hyps)" by blast
  from g(1,2) rk have "hyp_key g = hyp_key h" by (simp add: hyp_key_def)
  with g rk t have "triple r = t" by (simp add: triple_def hyp_key_def)
  with rin show "t \<in> ?L" by blast
qed

subsection \<open>Default beam search: the early stop\<close>



lemma max_by_score_mem: "max_by_score h hs \<in> set (h # hs)"
proof -
  have "foldl (\<lambda>m x. if score m < score x then x else m) m xs \<in> insert m (set xs)" for m xs
    by (induction xs arbitrary: m) (auto split: if_splits)
  then show ?thesis by (simp add: max_by_score_def)
qed



lemma frame_loop_next:
  "pop_step self scorer encoded_lengths time_idx h hs kept_hyps = Inr (Next_pop hyps' kept') \<Longrightarrow>
   frame_loop self scorer encoded_lengths time_idx (h # hs) kept_hyps
     = frame_loop self scorer encoded_lengths time_idx hyps' kept'"
  by (subst frame_loop.simps) simp


lemma init_example: "init example_args = Inr example_decoder"
  by (simp add: init_def example_args_def example_decoder_def select_search_algorithm_def
      bindE_def argmin_masked_zero_def lm_model_given_def load_ngram_lm_def)



subsection \<open>Ranking\<close>

lemma sort_nbest_eq:
  assumes "score_norm self \<longrightarrow> [] \<notin> y_sequence ` set hyps"
  shows "sort_nbest self hyps = Inr (sorted_desc (rank_key self) hyps)"
  using assms by (cases "score_norm self") (simp_all add: sort_nbest_def rank_key_def[abs_def])

lemma sorted_desc_nth_mono:
  assumes "i < j" "j < length (sorted_desc f xs)"
  shows "f (sorted_desc f xs ! j) \<le> f (sorted_desc f xs ! i)"
proof -
  have s: "sorted (map (\<lambda>x. - f x) (sorted_desc f xs))"
    unfolding sorted_desc_def by (rule sorted_sort_key)
  have "map (\<lambda>x. - f x) (sorted_desc f xs) ! i \<le> map (\<lambda>x. - f x) (sorted_desc f xs) ! j"
    using s assms by (intro sorted_nth_mono) simp_all
  with assms show ?thesis by simp
qed

lemma sorted_desc_stable:
  "filter (\<lambda>x. f x = k) (sorted_desc f xs) = filter (\<lambda>x. f x = k) xs"
proof -
  have "filter (\<lambda>y. - f y = - k) (sort_key (\<lambda>x. - f x) xs) = filter (\<lambda>y. - f y = - k) xs"
    by (rule sort_key_stable)
  then show ?thesis by (simp add: sorted_desc_def)
qed

subsection \<open>Construction\<close>

lemma select_search_algorithm_cases:
  "select_search_algorithm st =
     (if st = ''default'' then Inr default_beam_search_alg
      else if st = ''maes'' then Inr modified_adaptive_expansion_search_alg
      else Inl NotImplementedError)"
  by (simp add: select_search_algorithm_def)

lemma argmin_masked_zero_total: "ds \<noteq> [] \<Longrightarrow> \<exists>i. argmin_masked_zero ds = Inr i"
  by (simp add: argmin_masked_zero_def split: list.splits option.splits)

lemma argmin_masked_zero_empty: "argmin_masked_zero [] = Inl ValueError"
  by (simp add: argmin_masked_zero_def)

subsection \<open>Language model fusion\<close>


lemma log10_e_inverse: "1 / log 10 (exp 1) = ln 10"
  by (simp add: log_def)

lemma py_index_nat: "n < length xs \<Longrightarrow> py_index xs (int n) = Inr (xs ! n)"
  by (simp add: py_index_def)

lemma maes_expand_non_blank_lm:
  assumes "k \<noteq> blank self" "ngram_lm self = Some lm" "ngram_lm_state hyp = Some st"
    "ngram_lm_alpha self = Some alpha" "duration_idx < length (durations self)"
  shows "maes_expand self base_score time_idx hyp (k, duration_idx, total_logp) =
     Inr (if durations self ! duration_idx = 0 then To_list_exp else To_list_nb,
       \<lparr> score = score hyp + total_logp
                 + alpha * fst (compute_ngram_score self base_score lm st k),
         y_sequence = y_sequence hyp @ [k],
         dec_state = dec_state hyp,
         dec_out = dec_out hyp,
         timestep = timestep hyp @ [time_idx],
         length_enc = time_idx,
         last_frame = last_frame hyp + durations self ! duration_idx,
         ngram_lm_state = Some (snd (compute_ngram_score self base_score lm st k)) \<rparr>)"
  using assms
  by (simp add: maes_expand_def py_index_nat bindE_def Let_def split: prod.splits)

subsection \<open>Durations and the forced duration of a blank\<close>

lemma list_index_Some: "list_index xs v = Some i \<Longrightarrow> i < length xs \<and> xs ! i = v"
  by (induction xs arbitrary: i) (auto split: if_splits)

lemma list_index_None: "list_index xs v = None \<Longrightarrow> v \<notin> set xs"
  by (induction xs) (auto split: if_splits)

lemma list_index_mem: "v \<in> set xs \<Longrightarrow> \<exists>i. list_index xs v = Some i"
  by (induction xs) auto

lemma list_index_unique:
  "count_list xs v \<le> 1 \<Longrightarrow> j < length xs \<Longrightarrow> xs ! j = v \<Longrightarrow> list_index xs v = Some j"
proof (induction xs arbitrary: j)
  case Nil
  then show ?case by simp
next
  case (Cons x xs)
  show ?case
  proof (cases "x = v")
    case True
    with Cons.prems(1) have "count_list xs v = 0" by simp
    then have nin: "v \<notin> set xs" by (simp add: count_list_0_iff)
    have "j = 0"
    proof (rule ccontr)
      assume "j \<noteq> 0"
      then obtain j' where "j = Suc j'" by (cases j) auto
      with Cons.prems(2,3) have "xs ! j' = v" "j' < length xs" by auto
      with nin show False by (metis nth_mem)
    qed
    with True show ?thesis by simp
  next
    case False
    with Cons.prems(3) obtain j' where j: "j = Suc j'" by (cases j) auto
    with Cons.prems False have "count_list xs v \<le> 1" "j' < length xs" "xs ! j' = v" by auto
    from Cons.IH[OF this] False j show ?thesis by simp
  qed
qed

lemma fold_min_mem: "fold min us (u::int) \<in> set (u # us)"
proof (induction us arbitrary: u)
  case Nil
  then show ?case by simp
next
  case (Cons x xs)
  have m: "min x u = x \<or> min x u = u" by (simp add: min_def)
  have "fold min xs (min x u) \<in> set (min x u # xs)" by (rule Cons.IH)
  then have "fold min xs (min x u) = min x u \<or> fold min xs (min x u) \<in> set xs" by simp
  with m show ?case by auto
qed

lemma argmin_masked_zero_positive:
  assumes "\<forall>d \<in> set ds. 0 \<le> d" "\<exists>d \<in> set ds. d \<noteq> 0" "argmin_masked_zero ds = Inr m"
  shows "0 \<le> m \<and> nat m < length ds \<and> 0 < ds ! nat m"
proof -
  from assms(2) have ne: "ds \<noteq> []" by auto
  from assms(2) have "filter (\<lambda>d. d \<noteq> 0) ds \<noteq> []" by (auto simp: filter_empty_conv)
  then obtain u us where f: "filter (\<lambda>d. d \<noteq> 0) ds = u # us" by (cases "filter (\<lambda>d. d \<noteq> 0) ds") auto
  let ?v = "fold min us u"
  have "?v \<in> set (filter (\<lambda>d. d \<noteq> 0) ds)" unfolding f by (rule fold_min_mem)
  then have vin: "?v \<in> set ds" and vnz: "?v \<noteq> 0" by auto
  from list_index_mem[OF vin] obtain i where i: "list_index ds ?v = Some i" by blast
  from list_index_Some[OF i] have il: "i < length ds" and iv: "ds ! i = ?v" by auto
  from assms(3) ne f i have m: "m = int i" by (simp add: argmin_masked_zero_def)
  from assms(1) vin have "0 \<le> ?v" by blast
  with vnz iv have "0 < ds ! i" by simp
  with m il show ?thesis by simp
qed

lemma py_index_nat_Inr: "py_index xs (int n) = Inr d \<Longrightarrow> n < length xs \<and> d = xs ! n"
  by (auto simp: py_index_def split: if_splits)

lemma init_fields:
  assumes "init a = Inr self"
  shows "zero_duration_idx self = map_option int (list_index (durations self) 0)
       \<and> argmin_masked_zero (durations self) = Inr (min_non_zero_duration_idx self)"
proof -
  from assms obtain alg i where
    "select_search_algorithm (arg_search_type a) = Inr alg"
    "argmin_masked_zero (arg_durations a) = Inr i"
    "durations self = arg_durations a" "min_non_zero_duration_idx self = i"
    "zero_duration_idx self = map_option int (list_index (arg_durations a) 0)"
    unfolding init_def bindE_def Let_def
    by (auto split: if_splits sum.splits)
  then show ?thesis by simp
qed

lemma forced_duration_positive:
  assumes z: "zero_duration_idx self = map_option int (list_index (durations self) 0)"
    and m: "argmin_masked_zero (durations self) = Inr (min_non_zero_duration_idx self)"
    and nn: "\<forall>d \<in> set (durations self). 0 \<le> d"
    and nz: "\<exists>d \<in> set (durations self). d \<noteq> 0"
    and one: "count_list (durations self) 0 \<le> 1"
    and d: "py_index (durations self)
              (if Some (int i) = zero_duration_idx self
               then min_non_zero_duration_idx self else int i) = Inr d"
  shows "0 < d"
proof (cases "Some (int i) = zero_duration_idx self")
  case True
  from argmin_masked_zero_positive[OF nn nz m]
  have p: "0 \<le> min_non_zero_duration_idx self"
    "nat (min_non_zero_duration_idx self) < length (durations self)"
    "0 < durations self ! nat (min_non_zero_duration_idx self)" by auto
  from d True have "py_index (durations self) (int (nat (min_non_zero_duration_idx self))) = Inr d"
    using p(1) by simp
  from py_index_nat_Inr[OF this] p(3) show ?thesis by simp
next
  case False
  with d have "py_index (durations self) (int i) = Inr d" by simp
  from py_index_nat_Inr[OF this] have il: "i < length (durations self)"
    and di: "d = durations self ! i" by auto
  have "d \<noteq> 0"
  proof
    assume "d = 0"
    with di have "durations self ! i = 0" by simp
    from list_index_unique[OF one il this] z have "zero_duration_idx self = Some (int i)" by simp
    with False show False by simp
  qed
  moreover from il di nn have "0 \<le> d" by (metis nth_mem)
  ultimately show ?thesis by simp
qed

lemma duration_nonneg:
  assumes "\<forall>d \<in> set (durations self). 0 \<le> d" "py_index (durations self) (int i) = Inr d"
  shows "0 \<le> d"
  using py_index_nat_Inr[OF assms(2)] assms(1) by (metis nth_mem)

lemma expand_non_blank_frame:
  assumes "expand_non_blank self encoded_lengths beam_k time_idx sc parent p = Inr (duration, child)"
  shows "\<exists>i. py_index (durations self) (int i) = Inr duration
           \<and> last_frame child = last_frame parent + duration"
  using assms unfolding expand_non_blank_def bindE_def
  by (auto split: prod.splits sum.splits)

lemma expand_blank_frame:
  assumes "expand_blank self encoded_lengths sc parent i = Inr (Some child)"
  shows "\<exists>d. py_index (durations self)
              (if Some (int i) = zero_duration_idx self
               then min_non_zero_duration_idx self else int i) = Inr d
           \<and> last_frame child = last_frame parent + d"
  using assms unfolding expand_blank_def bindE_def Let_def
  by (auto split: if_splits sum.splits)

lemma maes_expand_frame:
  assumes "maes_expand self base_score time_idx parent (k, i, total_logp) = Inr (em, child)"
  shows "\<exists>d. py_index (durations self)
              (if k = blank self \<and> zero_duration_idx self \<noteq> None
                  \<and> Some (int i) = zero_duration_idx self
               then min_non_zero_duration_idx self else int i) = Inr d
           \<and> last_frame child = last_frame parent + d
           \<and> (em = To_list_b \<longleftrightarrow> k = blank self)"
  using assms unfolding maes_expand_def bindE_def Let_def
  by (auto split: if_splits sum.splits option.splits prod.splits)

lemma add_final_blank_frame:
  assumes "add_final_blank self msc time_idx parent = Inr child"
  shows "\<exists>i d. py_index (durations self)
              (if Some (int i) = zero_duration_idx self
               then min_non_zero_duration_idx self else int i) = Inr d
           \<and> last_frame child = last_frame parent + d"
  using assms unfolding add_final_blank_def bindE_def Let_def
  by (auto split: if_splits sum.splits)

subsection \<open>Construction: what is rejected\<close>

lemma load_ngram_lm_rejected:
  assumes "lm_model_given (arg_ngram_lm_model a)"
    "arg_search_type a \<noteq> ''maes'' \<or> kenlm a = None"
  shows "\<exists>e. load_ngram_lm a = Inl e"
  using assms by (cases "arg_ngram_lm_model a") (auto simp: load_ngram_lm_def lm_model_given_def)

lemma load_ngram_lm_ok:
  assumes "\<not> (lm_model_given (arg_ngram_lm_model a) \<and> arg_search_type a \<noteq> ''maes'')"
    "\<not> (lm_model_given (arg_ngram_lm_model a) \<and> kenlm a = None)"
  shows "(\<exists>lm. load_ngram_lm a = Inr lm) \<longleftrightarrow> lm_loads a"
  using assms
  by (auto simp: load_ngram_lm_def lm_loads_def bindE_def lm_model_given_def
      split: option.splits sum.splits)

lemma init_rejected: "spec_rejects a \<Longrightarrow> \<exists>e. init a = Inl e"
proof -
  assume r: "spec_rejects a"
  show ?thesis
  proof (cases "lm_model_given (arg_ngram_lm_model a)
                 \<and> (arg_search_type a \<noteq> ''maes'' \<or> kenlm a = None)")
    case True
    then obtain e where "load_ngram_lm a = Inl e" using load_ngram_lm_rejected by blast
    then show ?thesis
      unfolding init_def select_search_algorithm_cases bindE_def Let_def
      by (auto split: sum.splits)
  next
    case False
    with r show ?thesis
      unfolding spec_rejects_def init_def select_search_algorithm_cases bindE_def Let_def
      by (auto split: sum.splits)
  qed
qed

lemma init_accepted_iff:
  "(\<exists>self. init a = Inr self) \<longleftrightarrow> \<not> spec_rejects a \<and> arg_durations a \<noteq> [] \<and> lm_loads a"
proof (cases "spec_rejects a")
  case True
  with init_rejected[OF True] show ?thesis by auto
next
  case False
  then have l: "(\<exists>lm. load_ngram_lm a = Inr lm) \<longleftrightarrow> lm_loads a"
    by (intro load_ngram_lm_ok) (auto simp: spec_rejects_def)
  show ?thesis
  proof (cases "arg_durations a = []")
    case True
    then show ?thesis
      unfolding init_def select_search_algorithm_cases bindE_def Let_def
      by (auto simp: argmin_masked_zero_empty split: sum.splits)
  next
    case ne: False
    then obtain i where i: "argmin_masked_zero (arg_durations a) = Inr i"
      using argmin_masked_zero_total by blast
    from False have "(\<exists>self. init a = Inr self) \<longleftrightarrow> (\<exists>lm. load_ngram_lm a = Inr lm)"
      unfolding spec_rejects_def init_def select_search_algorithm_cases bindE_def Let_def i
      by (auto split: sum.splits)
    with l False ne show ?thesis by simp
  qed
qed

subsection \<open>Expansions of the example decoder\<close>

lemma ex_expand_non_blank:
  "expand_non_blank example_decoder 2 1 0 example_scores example_lm_hyp (- 2, 0)
     = Inr (1, \<lparr>score = - 2, y_sequence = [4, 0], dec_state = (), dec_out = [],
                timestep = [- 1, 1], length_enc = 2, last_frame = 1, ngram_lm_state = None\<rparr>)"
  by (simp add: expand_non_blank_def example_decoder_def example_scores_def example_lm_hyp_def
      bindE_def py_mod_def py_floordiv_def py_index_def)

lemma ex_expand_blank:
  "expand_blank example_decoder 2 example_scores example_lm_hyp 1
     = Inr (Some \<lparr>score = - 4, y_sequence = [4], dec_state = (), dec_out = [],
                timestep = [- 1], length_enc = 2, last_frame = 1, ngram_lm_state = None\<rparr>)"
  by (simp add: expand_blank_def example_decoder_def example_scores_def example_lm_hyp_def
      bindE_def py_index_def)

lemma ex_maes_expand_blank:
  "maes_expand example_decoder example_base_score 0 example_lm_hyp (2, 0, - 5)
     = Inr (To_list_b, \<lparr>score = - 5, y_sequence = [4], dec_state = (), dec_out = [()],
                timestep = [- 1], length_enc = 0, last_frame = 1, ngram_lm_state = None\<rparr>)"
  by (simp add: maes_expand_def example_decoder_def example_lm_hyp_def bindE_def py_index_def)

lemma ex_add_final_blank:
  "add_final_blank example_decoder example_maes_scorer 0 example_lm_hyp
     = Inr \<lparr>score = - 3, y_sequence = [4], dec_state = (), dec_out = [()],
                timestep = [- 1], length_enc = 0, last_frame = 1, ngram_lm_state = Some ()\<rparr>"
  by (simp add: add_final_blank_def last_dec_out_def example_decoder_def example_lm_hyp_def
      example_maes_scorer_def bindE_def py_index_def)

subsection \<open>A blank paired with the zero duration\<close>










section \<open>Claims\<close>



text \<open>
  Claim C4. In the list returned by \<^verbatim>\<open>remove_duplicate_hypotheses\<close> the pairs of token
  sequence and frame are pairwise different: no two hypotheses of the result share both.
\<close>

theorem no_duplicates_after_dedup:
  "distinct (map (\<lambda>h. (y_sequence h, last_frame h)) (remove_duplicate_hypotheses hyps))"
proof -
  have "distinct (map hyp_key (foldl absorb_hyp [] (sorted_desc score hyps)))"
    by (rule foldl_absorb_distinct) simp
  then show ?thesis
    by (simp add: remove_duplicate_hypotheses_def hyp_key_def[abs_def])
qed



text \<open>
  Claim C3. For two lists of hypotheses that are permutations of each other,
  \<^verbatim>\<open>remove_duplicate_hypotheses\<close> returns the same set of triples of token sequence, frame
  and score.
\<close>

theorem dedup_order_independent:
  assumes "mset hyps = mset hyps'"
  shows "(\<lambda>r. (y_sequence r, last_frame r, score r)) ` set (remove_duplicate_hypotheses hyps)
       = (\<lambda>r. (y_sequence r, last_frame r, score r)) ` set (remove_duplicate_hypotheses hyps')"
proof -
  have s: "set hyps = set hyps'" using assms by (rule mset_eq_setD)
  have "lse (filter (\<lambda>x. hyp_key x = k) hyps) = lse (filter (\<lambda>x. hyp_key x = k) hyps')" for k
    by (rule lse_mset) (simp add: assms)
  then have "triple ` set (remove_duplicate_hypotheses hyps)
           = triple ` set (remove_duplicate_hypotheses hyps')"
    by (simp add: rdh_triples s)
  then show ?thesis by (simp add: triple_def[abs_def])
qed

theorem dedup_order_independent_witness:
  "mset [example_hyp (- 3) [2, 0] 1, example_hyp (- 1) [2, 0] 1, example_hyp (- 2) [2] 1]
     = mset [example_hyp (- 2) [2] 1, example_hyp (- 1) [2, 0] 1, example_hyp (- 3) [2, 0] 1]
   \<and> (\<lambda>r. (y_sequence r, last_frame r, score r)) ` set (remove_duplicate_hypotheses
         [example_hyp (- 3) [2, 0] 1, example_hyp (- 1) [2, 0] 1, example_hyp (- 2) [2] 1])
     = (\<lambda>r. (y_sequence r, last_frame r, score r)) ` set (remove_duplicate_hypotheses
         [example_hyp (- 2) [2] 1, example_hyp (- 1) [2, 0] 1, example_hyp (- 3) [2, 0] 1])"
proof -
  have m: "mset [example_hyp (- 3) [2, 0] 1, example_hyp (- 1) [2, 0] 1, example_hyp (- 2) [2] 1]
     = mset [example_hyp (- 2) [2] 1, example_hyp (- 1) [2, 0] 1, example_hyp (- 3) [2, 0] 1]"
    by (simp add: add_mset_commute)
  show ?thesis using m dedup_order_independent [OF m] by blast
qed



text \<open>
  Claim C7, as amended. When no token sequence is empty (or \<^verbatim>\<open>score_norm\<close> is off),
  \<^verbatim>\<open>sort_nbest\<close> returns a permutation of its input in descending order of the ranking key,
  which is the score divided by the length of the token sequence under \<^verbatim>\<open>score_norm\<close> and the
  score otherwise: a hypothesis placed before another has a key at least as large, a
  hypothesis with a strictly larger key is placed before, and hypotheses with equal keys keep
  their input order.
\<close>

theorem sort_nbest_ranking:
  assumes "score_norm self \<longrightarrow> [] \<notin> y_sequence ` set hyps"
  shows "\<exists>r. sort_nbest self hyps = Inr r \<and> mset r = mset hyps
           \<and> (\<forall>i j. i < j \<and> j < length r \<longrightarrow> rank_key self (r ! j) \<le> rank_key self (r ! i))
           \<and> (\<forall>i j. i < length r \<and> j < length r
                  \<and> rank_key self (r ! j) < rank_key self (r ! i) \<longrightarrow> i < j)
           \<and> (\<forall>k. filter (\<lambda>x. rank_key self x = k) r = filter (\<lambda>x. rank_key self x = k) hyps)"
proof -
  let ?r = "sorted_desc (rank_key self) hyps"
  have mono: "rank_key self (?r ! j) \<le> rank_key self (?r ! i)" if "i < j" "j < length ?r" for i j
    using that by (rule sorted_desc_nth_mono)
  have strict: "i < j"
    if "i < length ?r" "j < length ?r" "rank_key self (?r ! j) < rank_key self (?r ! i)" for i j
  proof (rule ccontr)
    assume "\<not> i < j"
    then have "j < i \<or> j = i" by auto
    then show False
    proof
      assume "j < i"
      from mono[OF this that(1)] that(3) show False by simp
    next
      assume "j = i"
      with that(3) show False by simp
    qed
  qed
  have "sort_nbest self hyps = Inr ?r" using assms by (rule sort_nbest_eq)
  moreover have "mset ?r = mset hyps" by simp
  moreover have "\<forall>k. filter (\<lambda>x. rank_key self x = k) ?r = filter (\<lambda>x. rank_key self x = k) hyps"
    by (simp add: sorted_desc_stable)
  ultimately show ?thesis using mono strict by blast
qed

theorem sort_nbest_ranking_witness:
  "score_norm example_decoder
   \<and> [] \<notin> y_sequence ` set [example_hyp (- 4) [2, 0] 1, example_hyp (- 1) [2] 1]
   \<and> (\<exists>r. sort_nbest example_decoder [example_hyp (- 4) [2, 0] 1, example_hyp (- 1) [2] 1] = Inr r
        \<and> mset r = mset [example_hyp (- 4) [2, 0] 1, example_hyp (- 1) [2] 1]
        \<and> (\<forall>i j. i < j \<and> j < length r
               \<longrightarrow> rank_key example_decoder (r ! j) \<le> rank_key example_decoder (r ! i))
        \<and> (\<forall>i j. i < length r \<and> j < length r
               \<and> rank_key example_decoder (r ! j) < rank_key example_decoder (r ! i) \<longrightarrow> i < j)
        \<and> (\<forall>k. filter (\<lambda>x. rank_key example_decoder x = k) r
               = filter (\<lambda>x. rank_key example_decoder x = k)
                   [example_hyp (- 4) [2, 0] 1, example_hyp (- 1) [2] 1]))"
proof -
  have n: "score_norm example_decoder
   \<and> [] \<notin> y_sequence ` set [example_hyp (- 4) [2, 0] 1, example_hyp (- 1) [2] 1]"
    by (simp add: example_hyp_def example_decoder_def)
  then have h: "score_norm example_decoder
      \<longrightarrow> [] \<notin> y_sequence ` set [example_hyp (- 4) [2, 0] 1, example_hyp (- 1) [2] 1]"
    by simp
  show ?thesis using n sort_nbest_ranking [OF h] by blast
qed

text \<open>
  Claim C7 as stated fails on a tie. With \<^verbatim>\<open>score_norm\<close> set, the hypothesis of score \<open>-2\<close> and
  length 2 has a normalised score (\<open>-1\<close>) at least that of the hypothesis of score \<open>-1\<close> and
  length 1, and yet it is ranked after it, since it comes after it in the input.
\<close>

theorem sort_nbest_tie_counterexample:
  "sort_nbest example_decoder [example_hyp (- 1) [2] 1, example_hyp (- 2) [2, 0] 1]
     = Inr [example_hyp (- 1) [2] 1, example_hyp (- 2) [2, 0] 1]
   \<and> score (example_hyp (- 1) [2] 1) / real (length (y_sequence (example_hyp (- 1) [2] 1)))
       \<le> score (example_hyp (- 2) [2, 0] 1) / real (length (y_sequence (example_hyp (- 2) [2, 0] 1)))"
  by (simp add: sort_nbest_def sorted_desc_def example_decoder_def example_hyp_def)

text \<open>
  Claim C9. For every language-model state and label, \<^verbatim>\<open>compute_ngram_score\<close> returns the
  score of the language model for the word of the label, which is a logarithm in base 10,
  multiplied by \<open>1 / log\<^sub>1\<^sub>0 e\<close>, together with the state the model wrote: the result is the
  natural logarithm of the same probability. In mAES, with a language model, every expansion
  by a token other than the blank yields a hypothesis whose score is the parent's score plus
  the log-probability of the expansion plus \<^verbatim>\<open>ngram_lm_alpha\<close> times that converted score, and
  whose language-model state is the state the model wrote.
\<close>

theorem ngram_score_natural_log:
  "compute_ngram_score self base_score lm st label
     = (fst (base_score lm st (lm_label (token_offset self) label)) * (1 / log 10 (exp 1)),
        snd (base_score lm st (lm_label (token_offset self) label)))
   \<and> exp (fst (compute_ngram_score self base_score lm st label))
       = 10 powr fst (base_score lm st (lm_label (token_offset self) label))
   \<and> (k \<noteq> blank self \<and> ngram_lm self = Some lm \<and> ngram_lm_state hyp = Some st
        \<and> ngram_lm_alpha self = Some alpha \<and> duration_idx < length (durations self)
      \<longrightarrow> (\<exists>em child.
             maes_expand self base_score time_idx hyp (k, duration_idx, total_logp)
               = Inr (em, child)
           \<and> score child = score hyp + total_logp
                 + alpha * fst (compute_ngram_score self base_score lm st k)
           \<and> ngram_lm_state child = Some (snd (compute_ngram_score self base_score lm st k))))"
proof -
  have a: "compute_ngram_score self base_score lm st label
     = (fst (base_score lm st (lm_label (token_offset self) label)) * (1 / log 10 (exp 1)),
        snd (base_score lm st (lm_label (token_offset self) label)))"
    by (simp add: compute_ngram_score_def split: prod.splits)
  have b: "exp (fst (compute_ngram_score self base_score lm st label))
       = 10 powr fst (base_score lm st (lm_label (token_offset self) label))"
    unfolding a fst_conv log10_e_inverse by (simp add: powr_def mult.commute)
  have c: "k \<noteq> blank self \<and> ngram_lm self = Some lm \<and> ngram_lm_state hyp = Some st
        \<and> ngram_lm_alpha self = Some alpha \<and> duration_idx < length (durations self)
      \<longrightarrow> (\<exists>em child.
             maes_expand self base_score time_idx hyp (k, duration_idx, total_logp)
               = Inr (em, child)
           \<and> score child = score hyp + total_logp
                 + alpha * fst (compute_ngram_score self base_score lm st k)
           \<and> ngram_lm_state child = Some (snd (compute_ngram_score self base_score lm st k)))"
    by (auto simp: maes_expand_non_blank_lm)
  from a b c show ?thesis by (intro conjI)
qed

theorem ngram_score_natural_log_witness:
  "(0::int) \<noteq> blank example_maes_decoder \<and> ngram_lm example_maes_decoder = Some ()
   \<and> ngram_lm_state example_lm_hyp = Some ()
   \<and> ngram_lm_alpha example_maes_decoder = Some (3 / 10)
   \<and> (1::nat) < length (durations example_maes_decoder)
   \<and> (\<exists>em child.
         maes_expand example_maes_decoder example_base_score 0 example_lm_hyp (0, 1, - 1)
           = Inr (em, child)
       \<and> score child = score example_lm_hyp + (- 1)
             + 3 / 10 * fst (compute_ngram_score example_maes_decoder example_base_score () () 0)
       \<and> ngram_lm_state child
           = Some (snd (compute_ngram_score example_maes_decoder example_base_score () () 0)))
   \<and> compute_ngram_score example_maes_decoder example_base_score () () 0
       = (- 2 * (1 / log 10 (exp 1)), ())"
proof -
  have h: "(0::int) \<noteq> blank example_maes_decoder \<and> ngram_lm example_maes_decoder = Some ()
   \<and> ngram_lm_state example_lm_hyp = Some ()
   \<and> ngram_lm_alpha example_maes_decoder = Some (3 / 10)
   \<and> (1::nat) < length (durations example_maes_decoder)"
    by (simp add: example_maes_decoder_def example_lm_hyp_def)
  have e: "fst (example_base_score () () (lm_label (token_offset example_maes_decoder) 0)) = - 2"
    "snd (example_base_score () () (lm_label (token_offset example_maes_decoder) 0)) = ()"
    by (simp_all add: example_base_score_def)
  note t = ngram_score_natural_log [of example_maes_decoder example_base_score "()" "()" 0
      0 example_lm_hyp "3 / 10" 1 0 "- 1"]
  from t have c1: "compute_ngram_score example_maes_decoder example_base_score () () 0
     = (fst (example_base_score () () (lm_label (token_offset example_maes_decoder) 0))
          * (1 / log 10 (exp 1)),
        snd (example_base_score () () (lm_label (token_offset example_maes_decoder) 0)))"
    by (rule conjunct1)
  have v: "compute_ngram_score example_maes_decoder example_base_score () () 0
       = (- 2 * (1 / log 10 (exp 1)), ())"
    using c1 by (simp only: e)
  from t h have ex: "\<exists>em child.
         maes_expand example_maes_decoder example_base_score 0 example_lm_hyp (0, 1, - 1)
           = Inr (em, child)
       \<and> score child = score example_lm_hyp + (- 1)
             + 3 / 10 * fst (compute_ngram_score example_maes_decoder example_base_score () () 0)
       \<and> ngram_lm_state child
           = Some (snd (compute_ngram_score example_maes_decoder example_base_score () () 0))"
    by blast
  from h ex v show ?thesis by blast
qed

text \<open>
  Claim C8, as amended. Construction raises an error for every configuration that the
  specification lists as rejected (\<open>spec_rejects\<close>, with a language model counted as supplied
  when its path is not empty), and it succeeds exactly for the configurations that are not
  rejected, whose list of durations is not empty, and whose language model, when one is
  supplied, is loaded by the backend.
\<close>

theorem init_rejects_exactly:
  "(spec_rejects a \<longrightarrow> (\<exists>e. init a = Inl e))
   \<and> ((\<exists>self. init a = Inr self)
        \<longleftrightarrow> \<not> spec_rejects a \<and> arg_durations a \<noteq> [] \<and> lm_loads a)"
  using init_rejected[of a] init_accepted_iff[of a] by blast

theorem init_rejects_exactly_witness:
  "spec_rejects (example_args\<lparr>arg_beam_size := 0\<rparr>)
   \<and> (\<exists>e. init (example_args\<lparr>arg_beam_size := 0\<rparr>) = Inl e)
   \<and> \<not> spec_rejects example_maes_args \<and> arg_durations example_maes_args \<noteq> []
   \<and> lm_loads example_maes_args
   \<and> (\<exists>self. init example_maes_args = Inr self)"
proof -
  have r: "spec_rejects (example_args\<lparr>arg_beam_size := 0\<rparr>)"
    by (simp add: spec_rejects_def example_args_def)
  have n: "\<not> spec_rejects example_maes_args \<and> arg_durations example_maes_args \<noteq> []
      \<and> lm_loads example_maes_args"
    by (simp add: spec_rejects_def example_maes_args_def lm_model_given_def lm_loads_def)
  show ?thesis
    using r n init_rejects_exactly [of "example_args\<lparr>arg_beam_size := 0\<rparr>"]
      init_rejects_exactly [of example_maes_args] by blast
qed

text \<open>
  Claim C8 as stated fails in three ways. With an empty list of durations none of the listed
  conditions holds, and construction raises \<^verbatim>\<open>ValueError\<close>, from \<^verbatim>\<open>np.argmin\<close> on an empty
  array. With \<open>maes\<close>, the backend there and a model file that \<^verbatim>\<open>kenlm.Model\<close> cannot read,
  none of the listed conditions holds, and construction raises the error of the backend.
  With the empty string given as \<^verbatim>\<open>ngram_lm_model\<close> and the default search, a model path
  is given with a search type other than \<open>maes\<close>, and construction succeeds, since the
  source tests the truth value of the path.
\<close>

theorem init_unlisted_failures_counterexample:
  "\<not> spec_rejects (example_args\<lparr>arg_durations := []\<rparr>)
   \<and> init (example_args\<lparr>arg_durations := []\<rparr>) = Inl ValueError
   \<and> \<not> spec_rejects (example_maes_args\<lparr>kenlm := Some (\<lambda>path. Inl IOError)\<rparr>)
   \<and> init (example_maes_args\<lparr>kenlm := Some (\<lambda>path. Inl IOError)\<rparr>) = Inl IOError
   \<and> arg_ngram_lm_model (example_args\<lparr>arg_ngram_lm_model := Some ''''\<rparr>) = Some ''''
   \<and> arg_search_type (example_args\<lparr>arg_ngram_lm_model := Some ''''\<rparr>) = ''default''
   \<and> init (example_args\<lparr>arg_ngram_lm_model := Some ''''\<rparr>) = Inr example_decoder"
  by (simp add: spec_rejects_def example_args_def example_maes_args_def example_decoder_def
      lm_model_given_def init_def select_search_algorithm_def bindE_def argmin_masked_zero_def
      load_ngram_lm_def)

text \<open>
  Claim C5, as amended. For a decoder as the constructor builds it, whose durations are all
  non-negative, not all zero, and hold the value 0 at most once: every child of an expansion,
  in either search, has a frame that is at least the frame of its parent, and every blank
  expansion (in default beam search, in an mAES step, and where the last mAES step adds the
  blank to a zero-duration expansion) has a frame strictly greater than that of its parent.
\<close>

theorem monotonic_frame_advance:
  assumes i: "init a = Inr self"
    and nn: "\<forall>d \<in> set (durations self). 0 \<le> d"
    and nz: "\<exists>d \<in> set (durations self). d \<noteq> 0"
    and one: "count_list (durations self) 0 \<le> 1"
  shows "(expand_non_blank self encoded_lengths beam_k time_idx sc parent p = Inr (duration, c1)
            \<longrightarrow> last_frame parent \<le> last_frame c1)
       \<and> (expand_blank self encoded_lengths sc parent j = Inr (Some c2)
            \<longrightarrow> last_frame parent < last_frame c2)
       \<and> (maes_expand self base_score time_idx parent (k, n, total_logp) = Inr (em, c3)
            \<longrightarrow> last_frame parent \<le> last_frame c3
                \<and> (k = blank self \<longrightarrow> em = To_list_b \<and> last_frame parent < last_frame c3))
       \<and> (add_final_blank self msc time_idx parent = Inr c4
            \<longrightarrow> last_frame parent < last_frame c4)"
proof -
  from init_fields[OF i] have z: "zero_duration_idx self = map_option int (list_index (durations self) 0)"
    and m: "argmin_masked_zero (durations self) = Inr (min_non_zero_duration_idx self)" by auto
  note pos = forced_duration_positive[OF z m nn nz one]
  have a: "expand_non_blank self encoded_lengths beam_k time_idx sc parent p = Inr (duration, c1)
            \<longrightarrow> last_frame parent \<le> last_frame c1"
  proof
    assume "expand_non_blank self encoded_lengths beam_k time_idx sc parent p = Inr (duration, c1)"
    from expand_non_blank_frame[OF this] obtain q where
      "py_index (durations self) (int q) = Inr duration"
      "last_frame c1 = last_frame parent + duration" by blast
    with duration_nonneg[OF nn] show "last_frame parent \<le> last_frame c1" by fastforce
  qed
  have b: "expand_blank self encoded_lengths sc parent j = Inr (Some c2)
            \<longrightarrow> last_frame parent < last_frame c2"
  proof
    assume "expand_blank self encoded_lengths sc parent j = Inr (Some c2)"
    from expand_blank_frame[OF this] obtain d where
      d: "py_index (durations self)
              (if Some (int j) = zero_duration_idx self
               then min_non_zero_duration_idx self else int j) = Inr d"
      and l: "last_frame c2 = last_frame parent + d" by blast
    from pos[OF d] l show "last_frame parent < last_frame c2" by simp
  qed
  have c: "maes_expand self base_score time_idx parent (k, n, total_logp) = Inr (em, c3)
            \<longrightarrow> last_frame parent \<le> last_frame c3
                \<and> (k = blank self \<longrightarrow> em = To_list_b \<and> last_frame parent < last_frame c3)"
  proof
    assume "maes_expand self base_score time_idx parent (k, n, total_logp) = Inr (em, c3)"
    from maes_expand_frame[OF this] obtain d where
      d: "py_index (durations self)
              (if k = blank self \<and> zero_duration_idx self \<noteq> None
                  \<and> Some (int n) = zero_duration_idx self
               then min_non_zero_duration_idx self else int n) = Inr d"
      and l: "last_frame c3 = last_frame parent + d"
      and e: "em = To_list_b \<longleftrightarrow> k = blank self" by blast
    show "last_frame parent \<le> last_frame c3
                \<and> (k = blank self \<longrightarrow> em = To_list_b \<and> last_frame parent < last_frame c3)"
    proof (cases "k = blank self")
      case True
      have "(if Some (int n) = zero_duration_idx self
               then min_non_zero_duration_idx self else int n)
          = (if k = blank self \<and> zero_duration_idx self \<noteq> None
                  \<and> Some (int n) = zero_duration_idx self
               then min_non_zero_duration_idx self else int n)"
        using True by auto
      with d have "py_index (durations self)
              (if Some (int n) = zero_duration_idx self
               then min_non_zero_duration_idx self else int n) = Inr d" by simp
      from pos[OF this] l e True show ?thesis by simp
    next
      case False
      with d have "py_index (durations self) (int n) = Inr d" by simp
      from duration_nonneg[OF nn this] l False show ?thesis by simp
    qed
  qed
  have d: "add_final_blank self msc time_idx parent = Inr c4
            \<longrightarrow> last_frame parent < last_frame c4"
  proof
    assume "add_final_blank self msc time_idx parent = Inr c4"
    from add_final_blank_frame[OF this] obtain q d where
      d: "py_index (durations self)
              (if Some (int q) = zero_duration_idx self
               then min_non_zero_duration_idx self else int q) = Inr d"
      and l: "last_frame c4 = last_frame parent + d" by blast
    from pos[OF d] l show "last_frame parent < last_frame c4" by simp
  qed
  from a b c d show ?thesis by (intro conjI)
qed

theorem monotonic_frame_advance_witness:
  "init example_args = Inr example_decoder
   \<and> list_all (\<lambda>d. 0 \<le> d) (durations example_decoder)
   \<and> list_ex (\<lambda>d. d \<noteq> 0) (durations example_decoder)
   \<and> count_list (durations example_decoder) 0 \<le> 1
   \<and> (\<exists>c1. expand_non_blank example_decoder 2 1 0 example_scores example_lm_hyp (- 2, 0)
              = Inr (1, c1) \<and> last_frame example_lm_hyp \<le> last_frame c1)
   \<and> (\<exists>c2. expand_blank example_decoder 2 example_scores example_lm_hyp 1 = Inr (Some c2)
            \<and> last_frame example_lm_hyp < last_frame c2)
   \<and> (\<exists>c3. maes_expand example_decoder example_base_score 0 example_lm_hyp (2, 0, - 5)
              = Inr (To_list_b, c3) \<and> last_frame example_lm_hyp < last_frame c3)
   \<and> (\<exists>c4. add_final_blank example_decoder example_maes_scorer 0 example_lm_hyp = Inr c4
            \<and> last_frame example_lm_hyp < last_frame c4)"
proof -
  have h: "list_all (\<lambda>d. 0 \<le> d) (durations example_decoder)
      \<and> list_ex (\<lambda>d. d \<noteq> 0) (durations example_decoder)
      \<and> count_list (durations example_decoder) 0 \<le> 1"
    by (simp add: example_decoder_def)
  then have nn: "\<forall>d \<in> set (durations example_decoder). 0 \<le> d"
    and nz: "\<exists>d \<in> set (durations example_decoder). d \<noteq> 0"
    and one: "count_list (durations example_decoder) 0 \<le> 1"
    by (simp_all add: list_all_iff list_ex_iff)
  have b: "blank example_decoder = 2" by (simp add: example_decoder_def)
  note t = monotonic_frame_advance [OF init_example nn nz one,
      where encoded_lengths = 2 and beam_k = 1 and time_idx = 0 and sc = example_scores
        and parent = example_lm_hyp and p = "(- 2, 0)" and duration = 1 and j = 1
        and base_score = example_base_score and k = 2 and n = 0 and total_logp = "- 5"
        and em = To_list_b and msc = example_maes_scorer]
  note t1 = t [THEN conjunct1, THEN mp, OF ex_expand_non_blank]
  note t2 = t [THEN conjunct2, THEN conjunct1, THEN mp, OF ex_expand_blank]
  note t3 = t [THEN conjunct2, THEN conjunct2, THEN conjunct1, THEN mp, OF ex_maes_expand_blank]
  note t4 = t [THEN conjunct2, THEN conjunct2, THEN conjunct2, THEN mp, OF ex_add_final_blank]
  have e1: "\<exists>c1. expand_non_blank example_decoder 2 1 0 example_scores example_lm_hyp (- 2, 0)
              = Inr (1, c1) \<and> last_frame example_lm_hyp \<le> last_frame c1"
    using ex_expand_non_blank t1 by blast
  have e2: "\<exists>c2. expand_blank example_decoder 2 example_scores example_lm_hyp 1 = Inr (Some c2)
            \<and> last_frame example_lm_hyp < last_frame c2"
    using ex_expand_blank t2 by blast
  have e3: "\<exists>c3. maes_expand example_decoder example_base_score 0 example_lm_hyp (2, 0, - 5)
              = Inr (To_list_b, c3) \<and> last_frame example_lm_hyp < last_frame c3"
    using ex_maes_expand_blank t3 b by auto
  have e4: "\<exists>c4. add_final_blank example_decoder example_maes_scorer 0 example_lm_hyp = Inr c4
            \<and> last_frame example_lm_hyp < last_frame c4"
    using ex_add_final_blank t4 by blast
  from init_example h e1 e2 e3 e4 show ?thesis by (intro conjI) simp_all
qed

text \<open>
  Claim C5 as stated fails when 0 occurs twice among the durations. With the durations
  0, 0, 1 (all non-negative, one non-zero) the constructor records position 0 as the zero
  duration; a blank paired with the duration at position 1 is neither skipped nor given
  another duration, and its child stays on the frame of its parent.
\<close>

theorem repeated_zero_duration_counterexample:
  "init (example_args\<lparr>arg_durations := [0, 0, 1]\<rparr>)
     = Inr (example_decoder\<lparr>durations := [0, 0, 1], min_non_zero_duration_idx := 2\<rparr>)
   \<and> list_all (\<lambda>d. 0 \<le> d) [0, 0, 1 :: int] \<and> list_ex (\<lambda>d. d \<noteq> 0) [0, 0, 1 :: int]
   \<and> expand_blank (example_decoder\<lparr>durations := [0, 0, 1], min_non_zero_duration_idx := 2\<rparr>)
        2 (example_scores\<lparr>durations_logp_topk_idxs := [1, 2]\<rparr>) (example_hyp 0 [2] 0) 1
     = Inr (Some \<lparr>score = - 4, y_sequence = [2], dec_state = (), dec_out = [], timestep = [],
                   length_enc = 2, last_frame = 0, ngram_lm_state = None\<rparr>)
   \<and> last_frame (example_hyp 0 [2] 0) = 0"
  by (simp add: init_def example_args_def example_decoder_def select_search_algorithm_def
      bindE_def argmin_masked_zero_def lm_model_given_def load_ngram_lm_def
      expand_blank_def example_scores_def example_hyp_def py_index_def)




end
